theory Spec2Isabelle
  imports Complex_Main
begin


section \<open>Python strings and floats as used by the pipeline\<close>

text \<open>
  Python \<^verbatim>\<open>str\<close> values are modelled as \<^typ>\<open>string\<close>: lists of
  characters with code points below 256. In that range the regular-expression class
  \<^verbatim>\<open>\d\<close> is exactly \<^verbatim>\<open>0\<close>..\<^verbatim>\<open>9\<close>, and
  \<^verbatim>\<open>str.strip()\<close> treats the code points 9-13, 28-32, 133 and 160 as white
  space.
\<close>

definition is_digit :: "char \<Rightarrow> bool" where
  "is_digit c = (c \<in> set ''0123456789'')"

definition is_space :: "char \<Rightarrow> bool" where
  "is_space c = ((of_char c :: nat) \<in> set [9, 10, 11, 12, 13, 28, 29, 30, 31, 32, 133, 160])"

definition strip :: "string \<Rightarrow> string" where
  "strip s = rev (dropWhile is_space (rev (dropWhile is_space s)))"

text \<open>\<^verbatim>\<open>s.split(',')\<close>: the pieces between the commas, always at least one piece.\<close>

fun split_comma :: "string \<Rightarrow> string list" where
  "split_comma [] = [[]]"
| "split_comma (c # cs) =
     (if c = CHR '','' then [] # split_comma cs
      else (case split_comma cs of p # ps \<Rightarrow> (c # p) # ps | [] \<Rightarrow> [[c]]))"

definition digit_val :: "char \<Rightarrow> nat" where
  "digit_val c = of_char c - 48"

definition digit_char :: "nat \<Rightarrow> char" where
  "digit_char d = ''0123456789'' ! d"

text \<open>Value of a digit string, most significant digit first.\<close>

definition nat_of_digits :: "string \<Rightarrow> nat" where
  "nat_of_digits ds = foldl (\<lambda>acc c. 10 * acc + digit_val c) 0 ds"

fun digits_of :: "nat \<Rightarrow> string" where
  "digits_of n = (if n < 10 then [digit_char n] else digits_of (n div 10) @ [digit_char (n mod 10)])"

declare digits_of.simps [simp del]

text \<open>
  A Python \<^verbatim>\<open>float\<close> is an IEEE binary64 value. A finite one is kept as the
  shortest decimal that reads back as that float, which is what \<^verbatim>\<open>repr\<close>
  prints: \<open>Finite neg m e\<close> is the float nearest to \<open>(-1)^neg * m * 10^e\<close>, in the
  normal form where \<open>m\<close> has no trailing decimal zero (and \<open>e = 0\<close> when
  \<open>m = 0\<close>). Every finite float other than zero has exactly one such form.
\<close>

datatype pyfloat = Finite bool nat int | Inf bool | NaN

function norm_dec :: "nat \<Rightarrow> int \<Rightarrow> nat \<times> int" where
  "norm_dec m e =
     (if m = 0 then (0, 0)
      else if m mod 10 = 0 then norm_dec (m div 10) (e + 1)
      else (m, e))"
  by pat_completeness auto
termination
  by (relation "measure fst") auto

declare norm_dec.simps [simp del]

text \<open>The position of the decimal point: \<open>m * 10^e = 0.d\<^sub>1 \<dots> d\<^sub>n * 10^decpt\<close>
  where \<open>d\<^sub>1 \<dots> d\<^sub>n\<close> are the digits of \<open>m\<close>.\<close>

definition decpt :: "nat \<Rightarrow> int \<Rightarrow> int" where
  "decpt m e = int (length (digits_of m)) + e"

subsection \<open>Rounding a decimal to binary64\<close>

text \<open>
  The magnitude of a binary64 value: zero, \<open>mant * 2^ex\<close> with \<open>mant < 2^53\<close> and
  \<open>-1074 \<le> ex \<le> 971\<close> (and \<open>2^52 \<le> mant\<close> unless \<open>ex = -1074\<close>), or infinity.
  \<open>round64\<close> rounds a rational to the nearest such value, ties to the even mantissa,
  as \<^verbatim>\<open>float()\<close> does on a decimal literal; a result of \<open>2^1024\<close> or more is
  infinity.
\<close>

datatype binary64 = Zero64 | Fin64 nat int | Inf64

definition round_half_even :: "rat \<Rightarrow> int" where
  "round_half_even r =
     (let f = floor r; d = r - of_int f in
      if d < 1 / 2 then f else if 1 / 2 < d then f + 1 else if even f then f else f + 1)"

definition round64 :: "rat \<Rightarrow> binary64" where
  "round64 q =
     (if q \<le> 0 then Zero64
      else
        (case find (\<lambda>ex. q < 2 ^ 53 * 2 powi ex) [- 1074..971] of
           None \<Rightarrow> Inf64
         | Some ex \<Rightarrow>
             (let mant = nat (round_half_even (q / 2 powi ex)) in
              if mant = 0 then Zero64
              else if mant = 2 ^ 53 then (if ex = 971 then Inf64 else Fin64 (2 ^ 52) (ex + 1))
              else Fin64 mant ex)))"

text \<open>
  The digits \<^verbatim>\<open>repr\<close> prints for \<open>mant * 2^ex\<close>: the fewest digits, at most
  17, of a decimal that rounds back to the same value, and among the decimals of that
  length the nearest one (the even one on a tie). With \<open>n\<close> digits only the two
  decimals next to the value can qualify. Seventeen digits suffice for every binary64
  value, so the last case of \<open>shortest_pick\<close> is there only to make it total.
\<close>

definition shortest_candidate :: "nat \<Rightarrow> int \<Rightarrow> int \<Rightarrow> nat \<Rightarrow> (nat \<times> int) option" where
  "shortest_candidate mant ex dp n =
     (let r = (of_nat mant * 2 powi ex :: rat);
          u = 10 powi (dp - int n);
          lo = nat (floor (r / u));
          hi = lo + 1;
          lo_ok = (round64 (of_nat lo * u) = Fin64 mant ex);
          hi_ok = (round64 (of_nat hi * u) = Fin64 mant ex);
          lo_near = (r - of_nat lo * u < of_nat hi * u - r \<or>
                     (r - of_nat lo * u = of_nat hi * u - r \<and> even lo))
      in if lo_ok \<and> (\<not> hi_ok \<or> lo_near) then Some (lo, dp - int n)
         else if hi_ok then Some (hi, dp - int n)
         else None)"

definition shortest_pick :: "nat \<Rightarrow> int \<Rightarrow> nat \<times> int" where
  "shortest_pick mant ex =
     (let r = (of_nat mant * 2 powi ex :: rat);
          dp = (case find (\<lambda>p. r < 10 powi p) [- 323..309] of Some p \<Rightarrow> p | None \<Rightarrow> 309)
      in (case List.map_filter (shortest_candidate mant ex dp) [1..<18] of
            ce # _ \<Rightarrow> ce
          | [] \<Rightarrow> (nat (round_half_even (r / 10 powi (dp - 17))), dp - 17)))"

definition shortest_digits :: "nat \<Rightarrow> int \<Rightarrow> nat \<times> int" where
  "shortest_digits mant ex = (case shortest_pick mant ex of (c, e) \<Rightarrow> norm_dec c e)"

definition round_literal :: "bool \<Rightarrow> nat \<Rightarrow> int \<Rightarrow> pyfloat" where
  "round_literal neg m e =
     (case round64 (of_nat m * 10 powi e) of
        Zero64 \<Rightarrow> Finite neg 0 0
      | Inf64 \<Rightarrow> Inf neg
      | Fin64 mant ex \<Rightarrow> (case shortest_digits mant ex of (m', e') \<Rightarrow> Finite neg m' e'))"

text \<open>
  The float a decimal literal \<open>m * 10^e\<close> denotes. A decimal of at most 15 significant
  digits within the normal range is itself the shortest decimal of the float it rounds
  to (the 15-digit guarantee of binary64, \<^verbatim>\<open>sys.float_info.dig\<close>), so it is kept
  as it is; any other literal is rounded.
\<close>

definition exact15 :: "nat \<Rightarrow> int \<Rightarrow> bool" where
  "exact15 m e \<longleftrightarrow>
     m = 0 \<or> (length (digits_of m) \<le> 15 \<and> - 300 \<le> decpt m e \<and> decpt m e \<le> 300)"

definition mk_finite :: "bool \<Rightarrow> nat \<Rightarrow> int \<Rightarrow> pyfloat" where
  "mk_finite neg m e =
     (case norm_dec m e of
        (m', e') \<Rightarrow> if exact15 m' e' then Finite neg m' e' else round_literal neg m' e')"

text \<open>The decimal number a finite float is written as. For a float read from a literal of
  at most 15 significant digits this is the number of the literal.\<close>

definition float_value :: "pyfloat \<Rightarrow> rat option" where
  "float_value x =
     (case x of
        Finite neg m e \<Rightarrow> Some ((if neg then - 1 else 1) * of_nat m * 10 powi e)
      | _ \<Rightarrow> None)"


subsection \<open>\<^verbatim>\<open>float(s)\<close> on a string\<close>

text \<open>
  \<^verbatim>\<open>float(s)\<close> strips white space, checks that every underscore stands between
  two digits and removes it, and then reads an optional sign followed by
  \<^verbatim>\<open>inf\<close>, \<^verbatim>\<open>infinity\<close>, \<^verbatim>\<open>nan\<close> (any case) or a decimal
  number \<^verbatim>\<open>digits [. digits] [e [sign] digits]\<close> with at least one digit before
  the exponent. Anything else raises \<^verbatim>\<open>ValueError\<close>, here \<open>None\<close>.
  The white space of \<^verbatim>\<open>float\<close> is that of the C locale (9-13 and 32) and, above
  code point 127, that of Unicode (133 and 160): unlike \<^verbatim>\<open>str.strip()\<close>,
  \<^verbatim>\<open>float\<close> does not accept the separators 28-31.
\<close>

definition float_space :: "char \<Rightarrow> bool" where
  "float_space c = ((of_char c :: nat) \<in> set [9, 10, 11, 12, 13, 32, 133, 160])"

definition float_strip :: "string \<Rightarrow> string" where
  "float_strip s = rev (dropWhile float_space (rev (dropWhile float_space s)))"

fun underscores_ok :: "char \<Rightarrow> string \<Rightarrow> bool" where
  "underscores_ok prev [] = (prev \<noteq> CHR ''_'')"
| "underscores_ok prev (c # cs) =
     ((if c = CHR ''_'' then is_digit prev
       else (prev = CHR ''_'' \<longrightarrow> is_digit c)) \<and> underscores_ok c cs)"

definition lower_char :: "char \<Rightarrow> char" where
  "lower_char c =
     (let n = (of_char c :: nat) in if 65 \<le> n \<and> n \<le> 90 then char_of (n + 32) else c)"

definition parse_exponent :: "string \<Rightarrow> int option" where
  "parse_exponent s =
     (case s of
        [] \<Rightarrow> Some 0
      | c # r \<Rightarrow>
          if c = CHR ''e'' \<or> c = CHR ''E'' then
            (let (neg, ds) =
               (case r of
                  d # r' \<Rightarrow> if d = CHR ''-'' then (True, r')
                            else if d = CHR ''+'' then (False, r') else (False, r)
                | [] \<Rightarrow> (False, r))
             in if ds \<noteq> [] \<and> list_all is_digit ds
                then Some (if neg then - int (nat_of_digits ds) else int (nat_of_digits ds))
                else None)
          else None)"

definition parse_decimal :: "bool \<Rightarrow> string \<Rightarrow> pyfloat option" where
  "parse_decimal neg s =
     (let ip = takeWhile is_digit s;
          r1 = dropWhile is_digit s;
          (fp, r2) = (case r1 of
                        c # r \<Rightarrow> if c = CHR ''.'' then (takeWhile is_digit r, dropWhile is_digit r)
                                 else ([], r1)
                      | [] \<Rightarrow> ([], r1))
      in if ip = [] \<and> fp = [] then None
         else (case parse_exponent r2 of
                 None \<Rightarrow> None
               | Some ex \<Rightarrow> Some (mk_finite neg (nat_of_digits (ip @ fp)) (ex - int (length fp)))))"

definition py_float :: "string \<Rightarrow> pyfloat option" where
  "py_float s0 =
     (let s = float_strip s0 in
      if \<not> underscores_ok (CHR 0x00) s then None
      else
        (let t = filter (\<lambda>c. c \<noteq> CHR ''_'') s;
             (neg, u) = (case t of
                           c # r \<Rightarrow> if c = CHR ''-'' then (True, r)
                                    else if c = CHR ''+'' then (False, r) else (False, t)
                         | [] \<Rightarrow> (False, t));
             l = map lower_char u
         in if l = ''inf'' \<or> l = ''infinity'' then Some (Inf neg)
            else if l = ''nan'' then Some NaN
            else parse_decimal neg u))"

subsection \<open>\<^verbatim>\<open>str(x)\<close> on a float\<close>

text \<open>
  \<^verbatim>\<open>repr\<close> of a float prints its shortest digits \<open>d\<^sub>1 \<dots> d\<^sub>n\<close> with the decimal
  point at position \<open>decpt\<close> (the value is \<open>0.d\<^sub>1 \<dots> d\<^sub>n * 10^decpt\<close>): in exponent
  notation when \<open>decpt \<le> -4\<close> or \<open>decpt > 16\<close>, in positional notation otherwise, where
  an integral value gets the suffix \<^verbatim>\<open>.0\<close>.
\<close>

definition uses_exponent :: "pyfloat \<Rightarrow> bool" where
  "uses_exponent x =
     (case x of
        Finite neg m e \<Rightarrow> m \<noteq> 0 \<and> (decpt m e \<le> - 4 \<or> decpt m e > 16)
      | _ \<Rightarrow> False)"

definition repr_positional :: "nat \<Rightarrow> int \<Rightarrow> string" where
  "repr_positional m e =
     (let ds = digits_of m; p = decpt m e in
      if p \<le> 0 then ''0.'' @ replicate (nat (- p)) (CHR ''0'') @ ds
      else if int (length ds) \<le> p then ds @ replicate (nat (p - int (length ds))) (CHR ''0'') @ ''.0''
      else take (nat p) ds @ ''.'' @ drop (nat p) ds)"

definition repr_exponent :: "nat \<Rightarrow> int \<Rightarrow> string" where
  "repr_exponent m e =
     (let ds = digits_of m; x = decpt m e - 1; xs = digits_of (nat \<bar>x\<bar>) in
      take 1 ds @ (if length ds > 1 then ''.'' @ drop 1 ds else [])
      @ ''e'' @ (if x < 0 then ''-'' else ''+'')
      @ (if length xs < 2 then ''0'' @ xs else xs))"

definition py_str :: "pyfloat \<Rightarrow> string" where
  "py_str x =
     (case x of
        NaN \<Rightarrow> ''nan''
      | Inf neg \<Rightarrow> (if neg then ''-inf'' else ''inf'')
      | Finite neg m e \<Rightarrow>
          (if neg then ''-'' else [])
          @ (if m = 0 then ''0.0''
             else if uses_exponent (Finite neg m e) then repr_exponent m e
             else repr_positional m e))"

section \<open>Transform stage (\<^verbatim>\<open>utils/transform.py\<close>)\<close>

text \<open>
  Exceptions are values; a computation that may raise has a result of type
  \<open>exn + 'a\<close>. A \<^verbatim>\<open>pandas.DataFrame\<close> is its list of columns in order, each
  column the list of its cells; all columns have the same length. A frame without columns
  is the empty list, whatever the length of its index; \<^verbatim>\<open>DataFrame.empty\<close> is
  true of it in any case.
\<close>

datatype exn =
    ValueError
  | TypeError
  | AttributeError
  | DriverError string
  | PipelineError string

text \<open>A cell holds a string, a float, \<^verbatim>\<open>None\<close> or the time stamp of the batch.
  Time stamps are only ever stored in the \<^verbatim>\<open>extraction_timestamp\<close> column.\<close>

datatype cell = Str string | Num pyfloat | Null | Stamp nat

type_synonym dataframe = "(string \<times> cell list) list"

type_synonym raw_record = "(string \<times> string) list"

datatype log_record =
    LogInfo string
  | LogWarning string
  | LogError string
  | FailedToParseCoordinates cell exn

text \<open>Python truth value of a cell (\<^verbatim>\<open>if rating\<close>): NaN is true, zero is false.\<close>

fun truthy :: "cell \<Rightarrow> bool" where
  "truthy (Str s) = (s \<noteq> [])"
| "truthy (Num (Finite neg m e)) = (m \<noteq> 0)"
| "truthy (Num x) = True"
| "truthy Null = False"
| "truthy (Stamp t) = True"

fun str_cell :: "cell \<Rightarrow> string" where
  "str_cell (Str s) = s"
| "str_cell (Num x) = py_str x"
| "str_cell Null = ''None''"
| "str_cell (Stamp t) = digits_of t"

text \<open>
  \<^verbatim>\<open>re.search(r'(\d+(\.\d+)?)', s)\<close>, group 1: the match starts at the first digit
  of \<open>s\<close>, takes all the digits that follow and then, if a point and at least one digit
  come next, the point and all the digits after it.
\<close>

definition search_number :: "string \<Rightarrow> string option" where
  "search_number s =
     (let t = dropWhile (\<lambda>c. \<not> is_digit c) s in
      if t = [] then None
      else
        (let ip = takeWhile is_digit t; r = dropWhile is_digit t in
         (case r of
            c # r' \<Rightarrow>
              if c = CHR ''.'' \<and> takeWhile is_digit r' \<noteq> []
              then Some (ip @ ''.'' @ takeWhile is_digit r')
              else Some ip
          | [] \<Rightarrow> Some ip)))"

definition float_str :: "string \<Rightarrow> exn + pyfloat" where
  "float_str s = (case py_float s of None \<Rightarrow> Inl ValueError | Some x \<Rightarrow> Inr x)"

text \<open>The body of the loop of \<^verbatim>\<open>_extract_numeric_rating\<close> for one cell of the
  \<^verbatim>\<open>rating\<close> column: the value left in \<^verbatim>\<open>rating_numeric\<close> (\<open>None\<close> when
  the cell is not assigned), or the exception that escapes.\<close>

definition rating_numeric_cell :: "cell \<Rightarrow> exn + pyfloat option" where
  "rating_numeric_cell rating =
     (if truthy rating \<and> rating \<noteq> Str ''No rating'' then
        (case search_number (str_cell rating) of
           None \<Rightarrow> Inr None
         | Some g \<Rightarrow> (case float_str g of Inl e \<Rightarrow> Inl e | Inr x \<Rightarrow> Inr (Some x)))
      else Inr None)"

text \<open>\<^verbatim>\<open>pd.to_numeric(col, errors='coerce')\<close> on a column of floats and
  \<^verbatim>\<open>None\<close>: a missing value becomes NaN, which is how a float column says
  "absent".\<close>

definition to_numeric :: "pyfloat option \<Rightarrow> cell" where
  "to_numeric v = (case v of None \<Rightarrow> Num NaN | Some x \<Rightarrow> Num x)"

definition absent :: "cell \<Rightarrow> bool" where
  "absent c = (c = Num NaN \<or> c = Null)"

fun map_exn :: "('a \<Rightarrow> exn + 'b) \<Rightarrow> 'a list \<Rightarrow> exn + 'b list" where
  "map_exn f [] = Inr []"
| "map_exn f (x # xs) =
     (case f x of
        Inl e \<Rightarrow> Inl e
      | Inr y \<Rightarrow> (case map_exn f xs of Inl e \<Rightarrow> Inl e | Inr ys \<Rightarrow> Inr (y # ys)))"

text \<open>\<^verbatim>\<open>df[name] = column\<close>: replaces the column if it exists, appends it otherwise.\<close>

fun set_column :: "string \<Rightarrow> cell list \<Rightarrow> dataframe \<Rightarrow> dataframe" where
  "set_column name col [] = [(name, col)]"
| "set_column name col ((n, c) # df) =
     (if n = name then (n, col) # df else (n, c) # set_column name col df)"

definition extract_numeric_rating :: "dataframe \<Rightarrow> exn + dataframe" where
  "extract_numeric_rating df =
     (case map_of df ''rating'' of
        None \<Rightarrow> Inr df
      | Some col \<Rightarrow>
          (case map_exn rating_numeric_cell col of
             Inl e \<Rightarrow> Inl e
           | Inr vs \<Rightarrow> Inr (set_column ''rating_numeric'' (map to_numeric vs) df)))"

text \<open>
  The body of the loop of \<^verbatim>\<open>_split_coordinates\<close> for one cell: the values left in
  \<^verbatim>\<open>latitude\<close> and \<^verbatim>\<open>longitude\<close> and the warnings logged. The two
  assignments are made one after the other inside the \<^verbatim>\<open>try\<close>, so an exception
  of \<^verbatim>\<open>float(lng)\<close> is raised after \<^verbatim>\<open>latitude\<close> has been stored.
\<close>

definition split_coordinates_cell :: "cell \<Rightarrow> pyfloat option \<times> pyfloat option \<times> log_record list" where
  "split_coordinates_cell coord =
     (if truthy coord \<and> coord \<noteq> Str ''No coordinates'' then
        (case coord of
           Str s \<Rightarrow>
             (case split_comma s of
                [lat, lng] \<Rightarrow>
                  (case float_str lat of
                     Inl e \<Rightarrow> (None, None, [FailedToParseCoordinates coord e])
                   | Inr x \<Rightarrow>
                       (case float_str lng of
                          Inl e \<Rightarrow> (Some x, None, [FailedToParseCoordinates coord e])
                        | Inr y \<Rightarrow> (Some x, Some y, [])))
              | _ \<Rightarrow> (None, None, [FailedToParseCoordinates coord ValueError]))
         | _ \<Rightarrow> (None, None, [FailedToParseCoordinates coord AttributeError]))
      else (None, None, []))"

definition split_coordinates :: "dataframe \<Rightarrow> dataframe \<times> log_record list" where
  "split_coordinates df =
     (case map_of df ''coordinates'' of
        None \<Rightarrow> (df, [])
      | Some col \<Rightarrow>
          (let rs = map split_coordinates_cell col in
           (set_column ''longitude'' (map (\<lambda>r. to_numeric (fst (snd r))) rs)
              (set_column ''latitude'' (map (\<lambda>r. to_numeric (fst r)) rs) df),
            concat (map (\<lambda>r. snd (snd r)) rs))))"

text \<open>\<^verbatim>\<open>_clean_names\<close>: strip the names and replace the sentinel by a missing value.\<close>

definition clean_name_cell :: "cell \<Rightarrow> cell" where
  "clean_name_cell c =
     (case c of
        Str s \<Rightarrow> (if strip s = ''No name'' then Null else Str (strip s))
      | _ \<Rightarrow> Num NaN)"

definition clean_names :: "dataframe \<Rightarrow> dataframe" where
  "clean_names df =
     (case map_of df ''name'' of
        None \<Rightarrow> df
      | Some col \<Rightarrow> set_column ''name'' (map clean_name_cell col) df)"

text \<open>\<^verbatim>\<open>pd.DataFrame(raw_data)\<close> for a list of dictionaries: the columns are the
  keys in order of first appearance; a key a record lacks gives NaN.\<close>

definition frame_columns :: "raw_record list \<Rightarrow> string list" where
  "frame_columns raw_data = rev (remdups (rev (concat (map (map fst) raw_data))))"

definition DataFrame :: "raw_record list \<Rightarrow> dataframe" where
  "DataFrame raw_data =
     map (\<lambda>k. (k, map (\<lambda>r. (case map_of r k of None \<Rightarrow> Num NaN | Some v \<Rightarrow> Str v)) raw_data))
       (frame_columns raw_data)"

text \<open>The number of rows of a frame that has a column.\<close>

definition nrows :: "dataframe \<Rightarrow> nat" where
  "nrows df = (case df of [] \<Rightarrow> 0 | (n, col) # _ \<Rightarrow> length col)"

text \<open>\<^verbatim>\<open>clean_and_transform\<close> with the shared time stamp \<open>now\<close>. The frame has
  one row for each record, so the time stamp column has \<open>length raw_data\<close> cells. Of
  the log only the warnings are kept; the informational messages are left out.\<close>

definition clean_and_transform ::
  "nat \<Rightarrow> raw_record list \<Rightarrow> exn + (dataframe \<times> log_record list)" where
  "clean_and_transform now raw_data =
     (if raw_data = [] then Inr ([], [LogWarning ''No data to transform''])
      else
        (let df = DataFrame raw_data;
             df = filter (\<lambda>(n, c). n \<noteq> ''raw_html'') df;
             df = clean_names df
         in (case extract_numeric_rating df of
               Inl e \<Rightarrow> Inl e
             | Inr df \<Rightarrow>
                 (let (df, lg) = split_coordinates df;
                      df = set_column ''extraction_timestamp''
                             (replicate (length raw_data) (Stamp now)) df
                  in Inr (df, lg)))))"

text \<open>
  The words of the specification for the rating: a "decimal number" is a non-empty run
  of digits \<open>ip\<close>, optionally followed by a point and a non-empty run of digits
  \<open>fp\<close>; it is the first one of \<open>pre @ number_str ip fp @ post\<close> when \<open>pre\<close>
  has no digit and the number cannot be extended into \<open>post\<close>. Its value is
  \<open>decimal_value ip fp\<close>.
\<close>

definition number_str :: "string \<Rightarrow> string \<Rightarrow> string" where
  "number_str ip fp = (if fp = [] then ip else ip @ ''.'' @ fp)"

definition is_number :: "string \<Rightarrow> string \<Rightarrow> string \<Rightarrow> bool" where
  "is_number g ip fp \<longleftrightarrow> ip \<noteq> [] \<and> list_all is_digit ip \<and> list_all is_digit fp \<and>
     (if fp = [] then g = ip else g = ip @ ''.'' @ fp)"

definition first_number_at :: "string \<Rightarrow> string \<Rightarrow> string \<Rightarrow> string \<Rightarrow> bool" where
  "first_number_at pre ip fp post \<longleftrightarrow>
     list_all (\<lambda>c. \<not> is_digit c) pre \<and> ip \<noteq> [] \<and> list_all is_digit ip \<and> list_all is_digit fp \<and>
     (case post of [] \<Rightarrow> True | c # r \<Rightarrow> \<not> is_digit c) \<and>
     (fp = [] \<longrightarrow> (case post of c # d # r \<Rightarrow> \<not> (c = CHR ''.'' \<and> is_digit d) | _ \<Rightarrow> True))"

definition decimal_value :: "string \<Rightarrow> string \<Rightarrow> rat" where
  "decimal_value ip fp = of_nat (nat_of_digits ip) + of_nat (nat_of_digits fp) / 10 ^ length fp"

section \<open>Extraction (\<^verbatim>\<open>utils/extract.py\<close>)\<close>

text \<open>
  The browser is outside the program. Each call the extractor makes to the driver is
  answered by an environment record: what an element's text is, whether a click raises,
  what the address bar holds. Every driver call that can raise has a raising answer.
\<close>

datatype By = ById | ByCssSelector | ByXpath | ByTagName

type_synonym locator = "By \<times> string"

subsection \<open>The coordinate patterns\<close>

text \<open>
  \<^verbatim>\<open>-?\d+\.\d+\<close> at the head of a string: the text matched and the rest. The
  pattern is deterministic here, since each greedy run of digits is followed by a
  character that is not a digit.
\<close>

definition match_float :: "string \<Rightarrow> (string \<times> string) option" where
  "match_float s =
     (let (sg, r) = (case s of c # r \<Rightarrow> if c = CHR ''-'' then (''-'', r) else ([], s)
                     | [] \<Rightarrow> ([], s));
          ip = takeWhile is_digit r;
          r1 = dropWhile is_digit r
      in if ip = [] then None
         else (case r1 of
                 c # r2 \<Rightarrow>
                   if c = CHR ''.'' \<and> takeWhile is_digit r2 \<noteq> []
                   then Some (sg @ ip @ ''.'' @ takeWhile is_digit r2, dropWhile is_digit r2)
                   else None
               | [] \<Rightarrow> None))"

fun strip_prefix :: "string \<Rightarrow> string \<Rightarrow> string option" where
  "strip_prefix [] s = Some s"
| "strip_prefix (p # ps) [] = None"
| "strip_prefix (p # ps) (c # cs) = (if p = c then strip_prefix ps cs else None)"

text \<open>A pattern \<^verbatim>\<open>pre(-?\d+\.\d+)sep(-?\d+\.\d+)\<close> matched at the head of \<open>s\<close>.\<close>

definition match_pair :: "string \<Rightarrow> string \<Rightarrow> string \<Rightarrow> (string \<times> string) option" where
  "match_pair pre sep s =
     (case strip_prefix pre s of
        None \<Rightarrow> None
      | Some r \<Rightarrow>
          (case match_float r of
             None \<Rightarrow> None
           | Some (lat, r1) \<Rightarrow>
               (case strip_prefix sep r1 of
                  None \<Rightarrow> None
                | Some r2 \<Rightarrow>
                    (case match_float r2 of
                       None \<Rightarrow> None
                     | Some (lng, r3) \<Rightarrow> Some (lat, lng)))))"

text \<open>\<^verbatim>\<open>re.search\<close>: the leftmost position where the pattern matches.\<close>

fun search_pair :: "string \<Rightarrow> string \<Rightarrow> string \<Rightarrow> (string \<times> string) option" where
  "search_pair pre sep [] = match_pair pre sep []"
| "search_pair pre sep (c # cs) =
     (case match_pair pre sep (c # cs) of
        Some r \<Rightarrow> Some r
      | None \<Rightarrow> search_pair pre sep cs)"

definition search_at :: "string \<Rightarrow> (string \<times> string) option" where
  "search_at = search_pair ''@'' '',''"

definition search_3d4d :: "string \<Rightarrow> (string \<times> string) option" where
  "search_3d4d = search_pair ''!3d'' ''!4d''"

definition search_latitude_longitude :: "string \<Rightarrow> (string \<times> string) option" where
  \<open>search_latitude_longitude = search_pair ''"latitude":'' '',"longitude":''\<close>

definition fmt_pair :: "string \<times> string \<Rightarrow> string" where
  "fmt_pair p = fst p @ '','' @ snd p"

subsection \<open>One detail view\<close>

text \<open>
  What the driver answers while one detail view is open. \<open>None\<close> stands for a call
  that raises (or, where noted, returns \<^verbatim>\<open>None\<close>, which the code treats alike).
\<close>

record page =
  current_url :: "exn + string"
  elem_text :: "locator \<Rightarrow> string option"
  share_value :: "locator \<Rightarrow> string option option"
  escape_raises :: "locator \<Rightarrow> bool"
  script_tags :: "string option list option"
  meta_tags :: "(string option \<times> string option) list option"
  og_longitude :: "string option"

definition name_selectors :: "locator list" where
  "name_selectors =
     [(ByCssSelector, ''h1.DUwDvf''),
      (ByCssSelector, ''h1.fontHeadlineLarge''),
      (ByXpath, ''//h1[contains(@class, 'fontHeadline')]'')]"

definition address_selectors :: "locator list" where
  "address_selectors =
     [(ByCssSelector, ''button[data-item-id='address']''),
      (ByCssSelector, ''div.QSFF4-text.gm2-body-2''),
      (ByCssSelector, ''div.W4Efsd span''),
      (ByXpath, ''//button[contains(@data-item-id, 'address')]''),
      (ByXpath, ''//div[contains(@class, 'rogA2c')]''),
      (ByXpath, ''//div[contains(text(), 'Address: ')]/../following-sibling::div'')]"

definition rating_selectors :: "locator list" where
  "rating_selectors =
     [(ByCssSelector, ''div.F7nice span span span''),
      (ByCssSelector, ''span[aria-label*='stars']''),
      (ByCssSelector, ''span.MW4etd''),
      (ByXpath, ''//div[contains(@class, 'F7nice')]//span''),
      (ByXpath, ''//span[contains(@aria-label, 'stars')]'')]"

definition share_link_selectors :: "locator list" where
  "share_link_selectors =
     [(ByCssSelector, ''input[aria-label*='Share']''),
      (ByCssSelector, ''input.Gou1Yb''),
      (ByXpath, ''//input[contains(@aria-label, 'link')]''),
      (ByCssSelector, ''input[readonly]'')]"

text \<open>
  The loop shared by \<^verbatim>\<open>_extract_name\<close>, \<^verbatim>\<open>_extract_address\<close> and
  \<^verbatim>\<open>_extract_rating\<close>: the stripped text of the first selector that finds a
  non-empty one; every exception is swallowed; the sentinel after the loop.
\<close>

fun first_text :: "page \<Rightarrow> locator list \<Rightarrow> string \<Rightarrow> string" where
  "first_text p [] sentinel = sentinel"
| "first_text p (l # ls) sentinel =
     (case elem_text p l of
        None \<Rightarrow> first_text p ls sentinel
      | Some t \<Rightarrow> if strip t \<noteq> [] then strip t else first_text p ls sentinel)"

definition extract_name :: "page \<Rightarrow> string" where
  "extract_name p = first_text p name_selectors ''No name''"

definition extract_address :: "page \<Rightarrow> string" where
  "extract_address p = first_text p address_selectors ''No address''"

definition extract_rating :: "page \<Rightarrow> string" where
  "extract_rating p = first_text p rating_selectors ''No rating''"

text \<open>
  Method 2 of \<^verbatim>\<open>_extract_coordinates\<close>, the loop over the share-link selectors.
  (The loop before it, which clicks the share button, drops every exception and
  computes nothing, so it leaves no mark here.)
  A selector is skipped when the wait raises, when the \<^verbatim>\<open>value\<close> attribute is
  \<^verbatim>\<open>None\<close> (\<^verbatim>\<open>re.search\<close> raises), or when sending the escape key raises,
  which happens before the \<^verbatim>\<open>return\<close>.
\<close>

fun share_link_coordinates :: "page \<Rightarrow> locator list \<Rightarrow> string option" where
  "share_link_coordinates p [] = None"
| "share_link_coordinates p (l # ls) =
     (case share_value p l of
        None \<Rightarrow> share_link_coordinates p ls
      | Some None \<Rightarrow> share_link_coordinates p ls
      | Some (Some share_url) \<Rightarrow>
          (case search_3d4d share_url of
             Some m \<Rightarrow> if escape_raises p l then share_link_coordinates p ls else Some (fmt_pair m)
           | None \<Rightarrow>
               (case search_at share_url of
                  Some m \<Rightarrow>
                    if escape_raises p l then share_link_coordinates p ls else Some (fmt_pair m)
                | None \<Rightarrow> share_link_coordinates p ls)))"

text \<open>Method 3: the first script tag whose content matches.\<close>

fun script_coordinates :: "string option list \<Rightarrow> string option" where
  "script_coordinates [] = None"
| "script_coordinates (None # ss) = script_coordinates ss"
| "script_coordinates (Some script_content # ss) =
     (case search_latitude_longitude script_content of
        Some m \<Rightarrow> Some (fmt_pair m)
      | None \<Rightarrow> script_coordinates ss)"

text \<open>
  The last method: a meta tag whose \<^verbatim>\<open>property\<close> is \<^verbatim>\<open>og:latitude\<close>; its
  content and the content of the \<^verbatim>\<open>og:longitude\<close> tag are used as they are when
  both are non-empty.
\<close>

fun meta_coordinates :: "string option \<Rightarrow> (string option \<times> string option) list \<Rightarrow> string option" where
  "meta_coordinates lng_content [] = None"
| "meta_coordinates lng_content ((prop, content) # ms) =
     (if prop = Some ''og:latitude'' then
        (case (content, lng_content) of
           (Some lat, Some lng) \<Rightarrow>
             if lat \<noteq> [] \<and> lng \<noteq> [] then Some (lat @ '','' @ lng)
             else meta_coordinates lng_content ms
         | _ \<Rightarrow> meta_coordinates lng_content ms)
      else meta_coordinates lng_content ms)"

definition extract_coordinates :: "page \<Rightarrow> exn + string" where
  "extract_coordinates p =
     (case current_url p of
        Inl e \<Rightarrow> Inl e
      | Inr url \<Rightarrow>
          (case search_at url of
             Some m \<Rightarrow> Inr (fmt_pair m)
           | None \<Rightarrow>
               (case share_link_coordinates p share_link_selectors of
                  Some c \<Rightarrow> Inr c
                | None \<Rightarrow>
                    (case (case script_tags p of None \<Rightarrow> None | Some ss \<Rightarrow> script_coordinates ss) of
                       Some c \<Rightarrow> Inr c
                     | None \<Rightarrow>
                         (case (case meta_tags p of None \<Rightarrow> None
                                | Some ms \<Rightarrow> meta_coordinates (og_longitude p) ms) of
                            Some c \<Rightarrow> Inr c
                          | None \<Rightarrow> Inr ''No coordinates'')))))"

text \<open>The dictionary built by \<^verbatim>\<open>_extract_single_place\<close>, keys in order.\<close>

definition place_data :: "page \<Rightarrow> exn + raw_record" where
  "place_data p =
     (case extract_coordinates p of
        Inl e \<Rightarrow> Inl e
      | Inr c \<Rightarrow>
          Inr [(''name'', extract_name p),
               (''address'', extract_address p),
               (''rating'', extract_rating p),
               (''coordinates'', c)])"

text \<open>
  The words of the specification for a coordinate string: two texts that read as floats,
  separated by one comma.
\<close>

definition coordinates_wellformed :: "string \<Rightarrow> bool" where
  "coordinates_wellformed c =
     (case split_comma c of
        [a, b] \<Rightarrow> py_float a \<noteq> None \<and> py_float b \<noteq> None
      | _ \<Rightarrow> False)"

subsection \<open>The session and the card loop\<close>

text \<open>
  The extractor object: the driver (a session number, \<open>None\<close> before the first
  launch), the number of sessions launched so far, the list \<^verbatim>\<open>self.results\<close>, and
  a trace of what was asked of the browser. A card handle remembers the session whose
  page it was found on; \<open>Opened s c\<close> records that the card \<open>c\<close> was to be opened
  while the driver was \<open>s\<close>.
\<close>

record card =
  card_session :: nat
  card_index :: nat

datatype event =
    Launched nat
  | Enumerated nat
  | Opened "nat option" card

record extractor =
  driver :: "nat option"
  launches :: nat
  results :: "raw_record list"
  trace :: "event list"

text \<open>The driver's answers while a session is started and the search is made.\<close>

record launch_env =
  setup_exn :: "exn option"
  navigate_exn :: "exn option"
  search_box :: "locator \<Rightarrow> bool"
  send_keys_exn :: "exn option"
  scroll_exn :: "exn option"

definition search_box_selectors :: "locator list" where
  "search_box_selectors =
     [(ById, ''searchboxinput''),
      (ByCssSelector, ''input[name='q']''),
      (ByCssSelector, ''input.searchboxinput''),
      (ByXpath, ''//input[@id='searchboxinput']'')]"

definition setup_driver :: "launch_env \<Rightarrow> extractor \<Rightarrow> (exn + unit) \<times> extractor" where
  "setup_driver le st =
     (case setup_exn le of
        Some e \<Rightarrow> (Inl e, st)
      | None \<Rightarrow>
          (Inr (),
           st\<lparr>driver := Some (launches st),
              launches := Suc (launches st),
              trace := trace st @ [Launched (launches st)]\<rparr>))"

text \<open>\<^verbatim>\<open>navigate_to_google_maps\<close>: only \<^verbatim>\<open>driver.get\<close> can raise; the
  first-time screen is handled inside a \<^verbatim>\<open>try\<close>.\<close>

definition navigate_to_google_maps :: "launch_env \<Rightarrow> exn + unit" where
  "navigate_to_google_maps le = (case navigate_exn le of Some e \<Rightarrow> Inl e | None \<Rightarrow> Inr ())"

definition search_for_places :: "launch_env \<Rightarrow> exn + unit" where
  "search_for_places le =
     (if \<not> list_ex (search_box le) search_box_selectors
      then Inl (PipelineError ''Could not find search box with any selector'')
      else (case send_keys_exn le of Some e \<Rightarrow> Inl e | None \<Rightarrow> Inr ()))"

definition scroll_results :: "launch_env \<Rightarrow> exn + unit" where
  "scroll_results le = (case scroll_exn le of Some e \<Rightarrow> Inl e | None \<Rightarrow> Inr ())"

text \<open>The four calls that \<^verbatim>\<open>extract\<close> and \<^verbatim>\<open>_restart_browser_and_search\<close> share.\<close>

definition launch_and_search :: "launch_env \<Rightarrow> extractor \<Rightarrow> (exn + unit) \<times> extractor" where
  "launch_and_search le st =
     (case setup_driver le st of
        (Inl e, st1) \<Rightarrow> (Inl e, st1)
      | (Inr u, st1) \<Rightarrow>
          (case navigate_to_google_maps le of
             Inl e \<Rightarrow> (Inl e, st1)
           | Inr u \<Rightarrow>
               (case search_for_places le of
                  Inl e \<Rightarrow> (Inl e, st1)
                | Inr u \<Rightarrow>
                    (case scroll_results le of
                       Inl e \<Rightarrow> (Inl e, st1)
                     | Inr u \<Rightarrow> (Inr (), st1)))))"

text \<open>\<^verbatim>\<open>_restart_browser_and_search\<close>: quitting the old driver is inside a
  \<^verbatim>\<open>try\<close> whose exceptions are dropped.\<close>

definition restart_browser_and_search :: "launch_env \<Rightarrow> extractor \<Rightarrow> (exn + unit) \<times> extractor" where
  "restart_browser_and_search le st = launch_and_search le st"

record back_env =
  click_ok :: "locator \<Rightarrow> bool"
  browser_back_ok :: bool

definition back_button_selectors :: "locator list" where
  "back_button_selectors =
     [(ByCssSelector, ''button[jsaction='pane.place.backToList']''),
      (ByCssSelector, ''button[aria-label='Back']''),
      (ByCssSelector, ''button.VfPpkd-icon-LgbsSe''),
      (ByXpath, ''//button[contains(@jsaction, 'backToList')]''),
      (ByXpath, ''//button[contains(@aria-label, 'Back')]'')]"

text \<open>\<^verbatim>\<open>_go_back_to_list\<close> never raises: every attempt is inside a bare
  \<^verbatim>\<open>except\<close>. Without a driver every attempt raises
  \<^verbatim>\<open>AttributeError\<close>, so the result is \<^verbatim>\<open>False\<close>.\<close>

definition go_back_to_list :: "back_env \<Rightarrow> extractor \<Rightarrow> bool" where
  "go_back_to_list be st =
     (case driver st of
        None \<Rightarrow> False
      | Some sid \<Rightarrow>
          if list_ex (click_ok be) back_button_selectors then True else browser_back_ok be)"

text \<open>The driver's answers while one card is processed.\<close>

record card_env =
  open_exn :: "exn option"
  detail :: page
  back_first :: back_env
  restart_first :: launch_env
  back_second :: back_env
  restart_second :: launch_env
  restart_third :: launch_env

text \<open>
  The \<^verbatim>\<open>except\<close> branch of \<^verbatim>\<open>_extract_single_place\<close>: go back, restart
  if that fails, restart once more if that restart raises; the result is \<^verbatim>\<open>None\<close>
  unless the last restart raises too.
\<close>

definition recover_single_place ::
  "card_env \<Rightarrow> extractor \<Rightarrow> (exn + raw_record option) \<times> extractor" where
  "recover_single_place ce st =
     (if go_back_to_list (back_second ce) st then (Inr None, st)
      else
        (case restart_browser_and_search (restart_second ce) st of
           (Inr u, st1) \<Rightarrow> (Inr None, st1)
         | (Inl e, st1) \<Rightarrow>
             (case restart_browser_and_search (restart_third ce) st1 of
                (Inr u, st2) \<Rightarrow> (Inr None, st2)
              | (Inl e2, st2) \<Rightarrow> (Inl e2, st2))))"

text \<open>
  The first statements of \<^verbatim>\<open>_extract_single_place\<close>: the card is scrolled into
  view and clicked. Without a driver, \<^verbatim>\<open>self.driver.execute_script\<close> raises
  \<^verbatim>\<open>AttributeError\<close>.
\<close>

definition open_card :: "card_env \<Rightarrow> extractor \<Rightarrow> exn option" where
  "open_card ce st = (case driver st of None \<Rightarrow> Some AttributeError | Some sid \<Rightarrow> open_exn ce)"

definition extract_single_place ::
  "card_env \<Rightarrow> nat \<Rightarrow> card \<Rightarrow> extractor \<Rightarrow> (exn + raw_record option) \<times> extractor" where
  "extract_single_place ce idx c st =
     (let st0 = st\<lparr>trace := trace st @ [Opened (driver st) c]\<rparr> in
      (case open_card ce st of
         Some e \<Rightarrow> recover_single_place ce st0
       | None \<Rightarrow>
           (case place_data (detail ce) of
              Inl e \<Rightarrow> recover_single_place ce st0
            | Inr pd \<Rightarrow>
                if go_back_to_list (back_first ce) st0 then (Inr (Some pd), st0)
                else
                  (case restart_browser_and_search (restart_first ce) st0 of
                     (Inr u, st1) \<Rightarrow> (Inr (Some pd), st1)
                   | (Inl e, st1) \<Rightarrow> recover_single_place ce st1))))"

text \<open>
  The loop of \<^verbatim>\<open>extract_place_cards\<close> over \<^verbatim>\<open>enumerate(cards)\<close>. An
  exception of a card is caught and the loop goes on; a non-empty dictionary is appended
  to the local list and to \<^verbatim>\<open>self.results\<close>.
\<close>

fun card_loop ::
  "(nat \<Rightarrow> card_env) \<Rightarrow> (nat \<times> card) list \<Rightarrow> raw_record list \<Rightarrow> extractor
     \<Rightarrow> raw_record list \<times> extractor" where
  "card_loop ces [] acc st = (acc, st)"
| "card_loop ces ((idx, c) # rest) acc st =
     (case extract_single_place (ces idx) idx c st of
        (Inl e, st1) \<Rightarrow> card_loop ces rest acc st1
      | (Inr None, st1) \<Rightarrow> card_loop ces rest acc st1
      | (Inr (Some pd), st1) \<Rightarrow>
          if pd \<noteq> [] then card_loop ces rest (acc @ [pd]) (st1\<lparr>results := results st1 @ [pd]\<rparr>)
          else card_loop ces rest acc st1)"

text \<open>The whole run's environment.\<close>

record env =
  launch :: launch_env
  find_cards :: "string \<Rightarrow> exn + nat"
  card_envs :: "nat \<Rightarrow> card_env"
  quit_exn :: "exn option"

definition alternative_selectors :: "string list" where
  "alternative_selectors =
     [''div.DxyBCb.kA9KIf'', ''div[role='article']'', ''div.V0h1Ob-haAclf'', ''div.bfdHYd'']"

fun find_alternative :: "(string \<Rightarrow> exn + nat) \<Rightarrow> string list \<Rightarrow> exn + nat" where
  "find_alternative f [] = Inr 0"
| "find_alternative f (s # ss) =
     (case f s of
        Inl e \<Rightarrow> Inl e
      | Inr n \<Rightarrow> if 0 < n then Inr n else find_alternative f ss)"

text \<open>The number of cards found: the first selector, then the alternatives in order.\<close>

definition count_cards :: "(string \<Rightarrow> exn + nat) \<Rightarrow> exn + nat" where
  "count_cards f =
     (case f ''div.Nv2PK'' of
        Inl e \<Rightarrow> Inl e
      | Inr n \<Rightarrow> if 0 < n then Inr n else find_alternative f alternative_selectors)"

definition extract_place_cards :: "env \<Rightarrow> extractor \<Rightarrow> (exn + raw_record list) \<times> extractor" where
  "extract_place_cards ev st =
     (case driver st of
        None \<Rightarrow> (Inl AttributeError, st)
      | Some sid \<Rightarrow>
          (let st0 = st\<lparr>trace := trace st @ [Enumerated sid]\<rparr> in
           (case count_cards (find_cards ev) of
              Inl e \<Rightarrow> (Inl e, st0)
            | Inr n \<Rightarrow>
                (let cards = map (\<lambda>i. \<lparr>card_session = sid, card_index = i\<rparr>) [0..<n];
                     (rs, st1) = card_loop (card_envs ev) (zip [0..<n] cards) [] st0
                 in (Inr rs, st1)))))"

text \<open>\<^verbatim>\<open>close\<close>: quits the driver if there is one; quitting can raise.\<close>

definition close :: "env \<Rightarrow> extractor \<Rightarrow> exn option" where
  "close ev st = (case driver st of None \<Rightarrow> None | Some sid \<Rightarrow> quit_exn ev)"

text \<open>The \<^verbatim>\<open>try\<close> body of \<^verbatim>\<open>extract\<close>.\<close>

definition extraction_phase :: "env \<Rightarrow> extractor \<Rightarrow> (exn + raw_record list) \<times> extractor" where
  "extraction_phase ev st =
     (case launch_and_search (launch ev) st of
        (Inl e, st1) \<Rightarrow> (Inl e, st1)
      | (Inr u, st1) \<Rightarrow> extract_place_cards ev st1)"

text \<open>
  \<^verbatim>\<open>extract\<close>: on an exception the accumulated \<^verbatim>\<open>self.results\<close> are
  returned when there are any, otherwise the exception is raised again; the
  \<^verbatim>\<open>finally\<close> clause closes the driver, and an exception raised there replaces
  the pending return or exception.
\<close>

definition extract_records :: "env \<Rightarrow> extractor \<Rightarrow> (exn + raw_record list) \<times> extractor" where
  "extract_records ev st =
     (case extraction_phase ev st of
        (r, st1) \<Rightarrow>
          (let outcome =
                 (case r of
                    Inr rs \<Rightarrow> Inr rs
                  | Inl e \<Rightarrow> if results st1 \<noteq> [] then Inr (results st1) else Inl e)
           in (case close ev st1 of
                 Some e' \<Rightarrow> (Inl e', st1)
               | None \<Rightarrow> (outcome, st1))))"

text \<open>\<^verbatim>\<open>GoogleMapsExtractor(config)\<close>: a new object.\<close>

definition new_extractor :: extractor where
  "new_extractor = \<lparr>driver = None, launches = 0, results = [], trace = []\<rparr>"

section \<open>Load stage (\<^verbatim>\<open>utils/load.py\<close>)\<close>

datatype file_content = CsvFile dataframe | JsonLines dataframe

record filesystem =
  dirs :: "string set"
  files :: "string \<rightharpoonup> file_content"

record io_env =
  makedirs_fails :: "string \<Rightarrow> bool"
  write_fails :: "string \<Rightarrow> bool"

text \<open>\<^verbatim>\<open>os.path.dirname\<close>: up to the last slash, without trailing slashes unless
  it consists of slashes only.\<close>

definition dirname :: "string \<Rightarrow> string" where
  "dirname p =
     (let hd_part = rev (dropWhile (\<lambda>c. c \<noteq> CHR ''/'') (rev p)) in
      if hd_part \<noteq> [] \<and> \<not> list_all (\<lambda>c. c = CHR ''/'') hd_part
      then rev (dropWhile (\<lambda>c. c = CHR ''/'') (rev hd_part))
      else hd_part)"

definition target_dir :: "string \<Rightarrow> string" where
  "target_dir output_file = (if dirname output_file = [] then ''.'' else dirname output_file)"

definition df_empty :: "dataframe \<Rightarrow> bool" where
  "df_empty data = (data = [] \<or> nrows data = 0)"

definition save_to ::
  "(dataframe \<Rightarrow> file_content) \<Rightarrow> io_env \<Rightarrow> dataframe \<Rightarrow> string \<Rightarrow> filesystem \<Rightarrow> bool \<times> filesystem" where
  "save_to fmt io data output_file fs =
     (if makedirs_fails io (target_dir output_file) then (False, fs)
      else
        (let fs1 = fs\<lparr>dirs := insert (target_dir output_file) (dirs fs)\<rparr> in
         if write_fails io output_file then (False, fs1)
         else (True, fs1\<lparr>files := (files fs1)(output_file \<mapsto> fmt data)\<rparr>)))"

definition save_to_csv :: "io_env \<Rightarrow> dataframe \<Rightarrow> string \<Rightarrow> filesystem \<Rightarrow> bool \<times> filesystem" where
  "save_to_csv = save_to CsvFile"

definition save_to_json :: "io_env \<Rightarrow> dataframe \<Rightarrow> string \<Rightarrow> filesystem \<Rightarrow> bool \<times> filesystem" where
  "save_to_json = save_to JsonLines"

text \<open>\<^verbatim>\<open>load\<close>: the result, the file system afterwards and the warning logged
  for an empty frame. Neither saver lets an exception out.\<close>

definition load ::
  "io_env \<Rightarrow> dataframe \<Rightarrow> string \<Rightarrow> string \<Rightarrow> filesystem \<Rightarrow> bool \<times> filesystem \<times> log_record list" where
  "load io data output_csv output_json fs =
     (if df_empty data then (False, fs, [LogWarning ''No data to load''])
      else
        (case save_to_csv io data output_csv fs of
           (csv_success, fs1) \<Rightarrow>
             (case save_to_json io data output_json fs1 of
                (json_success, fs2) \<Rightarrow> (csv_success \<and> json_success, fs2, []))))"

section \<open>The entry point (\<^verbatim>\<open>main.py\<close>)\<close>

text \<open>
  \<^verbatim>\<open>run_pipeline\<close> returns \<^verbatim>\<open>False\<close> from its \<^verbatim>\<open>except\<close> branch and
  has no other \<^verbatim>\<open>return\<close>: when nothing raises, control runs off the end of the
  function and the value is \<^verbatim>\<open>None\<close>. The result of \<^verbatim>\<open>load\<close> is not used.
\<close>

datatype pyvalue = PyNone | PyBool bool

definition run_pipeline ::
  "env \<Rightarrow> io_env \<Rightarrow> nat \<Rightarrow> filesystem \<Rightarrow> pyvalue \<times> filesystem" where
  "run_pipeline ev io now fs =
     (case fst (extract_records ev new_extractor) of
        Inl e \<Rightarrow> (PyBool False, fs)
      | Inr raw_data \<Rightarrow>
          (case clean_and_transform now raw_data of
             Inl e \<Rightarrow> (PyBool False, fs)
           | Inr (transformed_data, lg) \<Rightarrow>
               (case load io transformed_data ''output/semarang_coffee_shops.csv''
                       ''output/semarang_coffee_shops.json'' fs of
                  (ok, fs1, lg1) \<Rightarrow> (PyNone, fs1))))"

fun py_truth :: "pyvalue \<Rightarrow> bool" where
  "py_truth PyNone = False"
| "py_truth (PyBool b) = b"

text \<open>\<^verbatim>\<open>main\<close> after the arguments are parsed: the status given to
  \<^verbatim>\<open>sys.exit\<close>, and the files left behind.\<close>

definition main :: "env \<Rightarrow> io_env \<Rightarrow> nat \<Rightarrow> filesystem \<Rightarrow> int \<times> filesystem" where
  "main ev io now fs =
     (case run_pipeline ev io now fs of
        (success, fs1) \<Rightarrow> ((if py_truth success then 0 else 1), fs1))"

section \<open>Predicates of the specification and example environments\<close>

text \<open>
  A field value is what the specification asks for when it is non-empty and is either
  the stripped text of one of the field's selectors or the sentinel, the sentinel being
  used when no selector has a non-empty text.
\<close>

definition field_value :: "page \<Rightarrow> locator list \<Rightarrow> string \<Rightarrow> string \<Rightarrow> bool" where
  "field_value p ls sentinel v \<longleftrightarrow>
     v \<noteq> [] \<and>
     (list_ex (\<lambda>l. case elem_text p l of Some t \<Rightarrow> v = strip t | None \<Rightarrow> False) ls \<or>
      (v = sentinel \<and>
       list_all (\<lambda>l. case elem_text p l of Some t \<Rightarrow> strip t = [] | None \<Rightarrow> True) ls))"

text \<open>
  The words of the specification for the coordinates: the methods are tried in order, the
  first success wins, and the sentinel is used when all fail. Each source of coordinates
  has a candidate: the address bar, each share link, each script tag, each meta tag.
  The candidates that exist, in that order, are \<open>coordinate_candidates\<close>; the value of
  the field is the first of them, or the sentinel if there is none.
\<close>

definition url_candidate :: "page \<Rightarrow> string option" where
  "url_candidate p =
     (case current_url p of Inl e \<Rightarrow> None | Inr url \<Rightarrow> map_option fmt_pair (search_at url))"

definition share_candidate :: "page \<Rightarrow> locator \<Rightarrow> string option" where
  "share_candidate p l =
     (case share_value p l of
        Some (Some share_url) \<Rightarrow>
          if escape_raises p l then None
          else (case search_3d4d share_url of
                  Some m \<Rightarrow> Some (fmt_pair m)
                | None \<Rightarrow> map_option fmt_pair (search_at share_url))
      | _ \<Rightarrow> None)"

definition script_candidate :: "string option \<Rightarrow> string option" where
  "script_candidate s =
     (case s of
        None \<Rightarrow> None
      | Some script_content \<Rightarrow> map_option fmt_pair (search_latitude_longitude script_content))"

definition meta_candidate :: "string option \<Rightarrow> string option \<times> string option \<Rightarrow> string option" where
  "meta_candidate lng_content tag =
     (case (fst tag, snd tag, lng_content) of
        (Some prop, Some lat, Some lng) \<Rightarrow>
          if prop = ''og:latitude'' \<and> lat \<noteq> [] \<and> lng \<noteq> [] then Some (lat @ '','' @ lng) else None
      | _ \<Rightarrow> None)"

fun somes :: "'a option list \<Rightarrow> 'a list" where
  "somes [] = []"
| "somes (None # xs) = somes xs"
| "somes (Some x # xs) = x # somes xs"

definition coordinate_candidates :: "page \<Rightarrow> string list" where
  "coordinate_candidates p =
     somes ([url_candidate p]
            @ map (share_candidate p) share_link_selectors
            @ (case script_tags p of None \<Rightarrow> [] | Some ss \<Rightarrow> map script_candidate ss)
            @ (case meta_tags p of None \<Rightarrow> []
               | Some ms \<Rightarrow> map (meta_candidate (og_longitude p)) ms))"

definition coordinates_value :: "page \<Rightarrow> string \<Rightarrow> bool" where
  "coordinates_value p co \<longleftrightarrow>
     co = (case coordinate_candidates p of [] \<Rightarrow> ''No coordinates'' | c # cs \<Rightarrow> c)"

text \<open>The cards that were opened and the sessions in which cards were enumerated, in the
  order of the trace.\<close>

fun opened_cards :: "event list \<Rightarrow> card list" where
  "opened_cards [] = []"
| "opened_cards (Opened s c # evs) = c # opened_cards evs"
| "opened_cards (ev # evs) = opened_cards evs"

fun enumerations :: "event list \<Rightarrow> nat list" where
  "enumerations [] = []"
| "enumerations (Enumerated s # evs) = s # enumerations evs"
| "enumerations (ev # evs) = enumerations evs"

text \<open>Every card is opened in the session whose page it was found on.\<close>

fun cards_current :: "event list \<Rightarrow> bool" where
  "cards_current [] = True"
| "cards_current (Opened s c # evs) = (s = Some (card_session c) \<and> cards_current evs)"
| "cards_current (ev # evs) = cards_current evs"

definition quiet_page :: page where
  "quiet_page =
     \<lparr>current_url = Inr ''https://www.google.com/maps/search/coffee+shop'',
      elem_text = (\<lambda>l. None),
      share_value = (\<lambda>l. None),
      escape_raises = (\<lambda>l. False),
      script_tags = Some [],
      meta_tags = Some [],
      og_longitude = None\<rparr>"

definition kopi_page :: page where
  "kopi_page =
     quiet_page
      \<lparr>current_url := Inr ''https://www.google.com/maps/place/Kopi/@-6.9667,110.4167,17z'',
       elem_text := (\<lambda>l. if l = (ByCssSelector, ''h1.DUwDvf'') then Some ''Kopi ''
                          else if l = (ByCssSelector, ''span.MW4etd'') then Some ''4.5''
                          else None)\<rparr>"

definition kopi_record :: raw_record where
  "kopi_record =
     [(''name'', ''Kopi''), (''address'', ''No address''), (''rating'', ''4.5''),
      (''coordinates'', ''-6.9667,110.4167'')]"

text \<open>A page whose only coordinates are meta tags written with decimal commas.\<close>

definition meta_page :: page where
  "meta_page =
     quiet_page
      \<lparr>meta_tags := Some [(Some ''og:title'', Some ''Kopi''), (Some ''og:latitude'', Some ''-6,9667'')],
       og_longitude := Some ''110,4167''\<rparr>"

definition ok_launch :: launch_env where
  "ok_launch =
     \<lparr>setup_exn = None, navigate_exn = None,
      search_box = (\<lambda>l. l = (ById, ''searchboxinput'')),
      send_keys_exn = None, scroll_exn = None\<rparr>"

definition back_ok :: back_env where
  "back_ok = \<lparr>click_ok = (\<lambda>l. False), browser_back_ok = True\<rparr>"

definition back_broken :: back_env where
  "back_broken = \<lparr>click_ok = (\<lambda>l. False), browser_back_ok = False\<rparr>"

definition good_card :: card_env where
  "good_card =
     \<lparr>open_exn = None, detail = kopi_page, back_first = back_ok, restart_first = ok_launch,
      back_second = back_ok, restart_second = ok_launch, restart_third = ok_launch\<rparr>"

text \<open>One card, nothing fails.\<close>

definition quiet_env :: env where
  "quiet_env =
     \<lparr>launch = ok_launch,
      find_cards = (\<lambda>s. if s = ''div.Nv2PK'' then Inr 1 else Inr 0),
      card_envs = (\<lambda>i. good_card),
      quit_exn = None\<rparr>"

text \<open>Two cards. After the first one the list cannot be reached and the browser is
  restarted; the handle of the second card is then stale and clicking it raises.\<close>

definition restart_env :: env where
  "restart_env =
     \<lparr>launch = ok_launch,
      find_cards = (\<lambda>s. if s = ''div.Nv2PK'' then Inr 2 else Inr 0),
      card_envs = (\<lambda>i. if i = 0 then good_card\<lparr>back_first := back_broken\<rparr>
                        else good_card\<lparr>open_exn := Some (DriverError ''stale element reference'')\<rparr>),
      quit_exn = None\<rparr>"

text \<open>One card. The list cannot be reached and the restart raises.\<close>

definition lost_env :: env where
  "lost_env =
     \<lparr>launch = ok_launch,
      find_cards = (\<lambda>s. if s = ''div.Nv2PK'' then Inr 1 else Inr 0),
      card_envs = (\<lambda>i. good_card\<lparr>back_first := back_broken,
                                   restart_first := ok_launch\<lparr>navigate_exn := Some (DriverError ''timeout'')\<rparr>\<rparr>),
      quit_exn = None\<rparr>"

text \<open>The page cannot be loaded; in the second environment quitting the driver raises
  as well.\<close>

definition offline_env :: env where
  "offline_env =
     quiet_env\<lparr>launch := ok_launch\<lparr>navigate_exn := Some (DriverError ''net::ERR_INTERNET_DISCONNECTED'')\<rparr>\<rparr>"

definition offline_quit_env :: env where
  "offline_quit_env = offline_env\<lparr>quit_exn := Some (DriverError ''chromedriver not reachable'')\<rparr>"

definition plain_io :: io_env where
  "plain_io = \<lparr>makedirs_fails = (\<lambda>d. False), write_fails = (\<lambda>f. False)\<rparr>"

definition empty_fs :: filesystem where
  "empty_fs = \<lparr>dirs = {}, files = Map.empty\<rparr>"

definition kopi_frame :: dataframe where
  "kopi_frame =
     [(''name'', [Str ''Kopi'']),
      (''address'', [Str ''No address'']),
      (''rating'', [Str ''4.5'']),
      (''coordinates'', [Str ''-6.9667,110.4167'']),
      (''rating_numeric'', [Num (Finite False 45 (- 1))]),
      (''latitude'', [Num (Finite True 69667 (- 4))]),
      (''longitude'', [Num (Finite False 1104167 (- 4))]),
      (''extraction_timestamp'', [Stamp 0])]"

text \<open>The extractor after a session has been started and its cards enumerated.\<close>

definition searching_extractor :: extractor where
  "searching_extractor =
     \<lparr>driver = Some 0, launches = 1, results = [], trace = [Launched 0, Enumerated 0]\<rparr>"

text \<open>A record with the four keys in order and no empty value.\<close>

definition four_fields :: "raw_record \<Rightarrow> bool" where
  "four_fields r \<longleftrightarrow> map fst r = [''name'', ''address'', ''rating'', ''coordinates''] \<and>
     list_all (\<lambda>kv. snd kv \<noteq> []) r"

text \<open>A text matched by \<^verbatim>\<open>-?\d+\.\d+\<close>.\<close>

definition float_token :: "string \<Rightarrow> bool" where
  "float_token t \<longleftrightarrow>
     (\<exists>sg ip fp. t = sg @ ip @ ''.'' @ fp \<and> (sg = [] \<or> sg = ''-'') \<and>
        ip \<noteq> [] \<and> list_all is_digit ip \<and> fp \<noteq> [] \<and> list_all is_digit fp)"

section \<open>Properties\<close>

subsection \<open>Reading numbers\<close>

lemma is_digit_cases:
  "is_digit c \<longleftrightarrow> c = CHR ''0'' \<or> c = CHR ''1'' \<or> c = CHR ''2'' \<or> c = CHR ''3'' \<or> c = CHR ''4''
     \<or> c = CHR ''5'' \<or> c = CHR ''6'' \<or> c = CHR ''7'' \<or> c = CHR ''8'' \<or> c = CHR ''9''"
  by (simp add: is_digit_def)

lemma digit_not_space: "is_digit c \<Longrightarrow> \<not> is_space c"
  unfolding is_digit_cases by (elim disjE; simp add: is_space_def)

lemma digit_not_float_space: "is_digit c \<Longrightarrow> \<not> float_space c"
  unfolding is_digit_cases by (elim disjE; simp add: float_space_def)

lemma digit_lower: "is_digit c \<Longrightarrow> lower_char c = c"
  unfolding is_digit_cases by (elim disjE; simp add: lower_char_def)

lemma digit_neq:
  assumes "is_digit c"
  shows "c \<noteq> CHR ''_''" "c \<noteq> CHR ''.''" "c \<noteq> CHR ''-''" "c \<noteq> CHR ''+''"
    "c \<noteq> CHR ''i''" "c \<noteq> CHR ''n''" "c \<noteq> CHR '',''" "c \<noteq> CHR ''e''" "c \<noteq> CHR ''E''"
  using assms unfolding is_digit_cases by auto

lemma not_digit_point [simp]: "\<not> is_digit (CHR ''.'')"
  by (simp add: is_digit_def)

lemma strip_id:
  assumes "s \<noteq> []" "\<not> is_space (hd s)" "\<not> is_space (last s)"
  shows "strip s = s"
proof -
  from assms have a: "dropWhile is_space s = s"
    by (cases s) auto
  from assms have "dropWhile is_space (rev s) = rev s"
    by (cases "rev s") (auto simp: last_rev hd_rev)
  with a show ?thesis by (simp add: strip_def)
qed

lemma float_strip_id:
  assumes "s \<noteq> []" "\<not> float_space (hd s)" "\<not> float_space (last s)"
  shows "float_strip s = s"
proof -
  from assms have a: "dropWhile float_space s = s"
    by (cases s) auto
  from assms have "dropWhile float_space (rev s) = rev s"
    by (cases "rev s") (auto simp: last_rev hd_rev)
  with a show ?thesis by (simp add: float_strip_def)
qed

lemma underscores_ok_none:
  "\<forall>c\<in>set s. c \<noteq> CHR ''_'' \<Longrightarrow> p \<noteq> CHR ''_'' \<Longrightarrow> underscores_ok p s"
  by (induction s arbitrary: p) simp_all

lemma filter_no_underscore:
  "\<forall>c\<in>set s. c \<noteq> CHR ''_'' \<Longrightarrow> filter (\<lambda>c. c \<noteq> CHR ''_'') s = s"
  by (induction s) simp_all

lemma takeWhile_digits_point:
  "list_all is_digit ip \<Longrightarrow> takeWhile is_digit (ip @ CHR ''.'' # r) = ip"
  by (induction ip) auto

lemma dropWhile_digits_point:
  "list_all is_digit ip \<Longrightarrow> dropWhile is_digit (ip @ CHR ''.'' # r) = CHR ''.'' # r"
  by (induction ip) auto

lemma takeWhile_all: "list_all P xs \<Longrightarrow> takeWhile P xs = xs"
  by (induction xs) auto

lemma dropWhile_all: "list_all P xs \<Longrightarrow> dropWhile P xs = []"
  by (induction xs) auto

lemma py_float_number:
  assumes "is_number g ip fp"
  shows "py_float g = Some (mk_finite False (nat_of_digits (ip @ fp)) (- int (length fp)))"
proof -
  from assms have ip: "ip \<noteq> []" "list_all is_digit ip" and fp: "list_all is_digit fp"
    by (auto simp: is_number_def)
  from assms have g: "g = ip @ (if fp = [] then [] else ''.'' @ fp)"
    by (auto simp: is_number_def)
  have hd: "is_digit (hd g)" using ip g by (cases ip) auto
  have lst: "is_digit (last g)" using ip fp g
    by (cases "fp = []") (auto simp: list_all_iff)
  have ne: "g \<noteq> []" using ip g by auto
  have strip: "float_strip g = g"
    using ne hd lst by (intro float_strip_id) (auto dest: digit_not_float_space)
  have nou: "\<forall>c\<in>set g. c \<noteq> CHR ''_''"
    using ip fp g by (auto simp: list_all_iff dest: digit_neq(1))
  obtain c r where cr: "g = c # r" using ne by (cases g) auto
  with hd have c: "is_digit c" by simp
  have low: "map lower_char g \<noteq> ''inf''" "map lower_char g \<noteq> ''infinity''" "map lower_char g \<noteq> ''nan''"
    using c cr digit_lower[OF c] digit_neq(5,6)[OF c] by auto
  have pd: "parse_decimal False g = Some (mk_finite False (nat_of_digits (ip @ fp)) (- int (length fp)))"
  proof (cases "fp = []")
    case True
    with g ip show ?thesis
      by (simp add: parse_decimal_def takeWhile_all dropWhile_all parse_exponent_def)
  next
    case False
    with g ip fp show ?thesis
      by (simp add: parse_decimal_def takeWhile_digits_point dropWhile_digits_point
          takeWhile_all dropWhile_all parse_exponent_def)
  qed
  have sign: "(case g of c # r \<Rightarrow> if c = CHR ''-'' then (True, r)
                                    else if c = CHR ''+'' then (False, r) else (False, g)
                         | [] \<Rightarrow> (False, g)) = (False, g)"
    using cr digit_neq(3,4)[OF c] by simp
  have uo: "underscores_ok (CHR 0x00) g"
    using nou by (simp add: underscores_ok_none)
  show ?thesis
    unfolding py_float_def Let_def strip filter_no_underscore[OF nou] sign
    using uo low pd by simp
qed


lemma norm_dec_value:
  "norm_dec m e = (m', e') \<Longrightarrow> (of_nat m' * 10 powi e' :: rat) = of_nat m * 10 powi e"
proof (induction m e rule: norm_dec.induct)
  case (1 m e)
  show ?case
  proof (cases "m = 0")
    case True
    with "1.prems" show ?thesis by (simp add: norm_dec.simps)
  next
    case False
    show ?thesis
    proof (cases "m mod 10 = 0")
      case True
      with False "1.prems" have "norm_dec (m div 10) (e + 1) = (m', e')"
        by (simp add: norm_dec.simps[of m e])
      from "1.IH"[OF False True this]
      have "(of_nat m' * 10 powi e' :: rat) = of_nat (m div 10) * 10 powi (e + 1)" .
      also have "\<dots> = of_nat (m div 10) * 10 * 10 powi e"
        by (simp add: power_int_add)
      also have "of_nat (m div 10) * (10::rat) = of_nat (m div 10 * 10)"
        by simp
      also have "m div 10 * 10 = m" using True by presburger
      finally show ?thesis .
    next
      case False
      with \<open>m \<noteq> 0\<close> "1.prems" show ?thesis by (simp add: norm_dec.simps[of m e])
    qed
  qed
qed

lemma foldl_digits:
  "foldl (\<lambda>acc c. 10 * acc + digit_val c) a ds
     = a * 10 ^ length ds + foldl (\<lambda>acc c. 10 * acc + digit_val c) 0 ds"
    (is "foldl ?f a ds = _")
proof (induction ds arbitrary: a)
  case Nil
  show ?case by simp
next
  case (Cons d ds)
  have "foldl ?f a (d # ds) = foldl ?f (10 * a + digit_val d) ds" by simp
  also have "\<dots> = (10 * a + digit_val d) * 10 ^ length ds + foldl ?f 0 ds"
    by (rule Cons.IH)
  finally have l: "foldl ?f a (d # ds) = (10 * a + digit_val d) * 10 ^ length ds + foldl ?f 0 ds" .
  have "foldl ?f 0 (d # ds) = foldl ?f (digit_val d) ds" by simp
  also have "\<dots> = digit_val d * 10 ^ length ds + foldl ?f 0 ds"
    by (rule Cons.IH)
  finally have r: "foldl ?f 0 (d # ds) = digit_val d * 10 ^ length ds + foldl ?f 0 ds" .
  show ?case unfolding l r by (simp add: algebra_simps)
qed

lemma nat_of_digits_append:
  "nat_of_digits (ip @ fp) = nat_of_digits ip * 10 ^ length fp + nat_of_digits fp"
  unfolding nat_of_digits_def foldl_append
  by (rule foldl_digits)




lemma digit_val_lt: "is_digit c \<Longrightarrow> digit_val c < 10"
  unfolding is_digit_cases by (elim disjE; simp add: digit_val_def)


lemma digits_of_ne: "digits_of n \<noteq> []"
  by (simp add: digits_of.simps[of n])

lemma nat_of_digits_single: "nat_of_digits [c] = digit_val c"
  by (simp add: nat_of_digits_def)


text \<open>The number of digits of a number below \<open>10^k\<close>, and of a digit string's value.\<close>

lemma digits_of_length_le: "n < 10 ^ k \<Longrightarrow> 0 < k \<Longrightarrow> length (digits_of n) \<le> k"
proof (induction n arbitrary: k rule: digits_of.induct)
  case (1 n)
  show ?case
  proof (cases "n < 10")
    case True
    with "1.prems" show ?thesis by (simp add: digits_of.simps[of n])
  next
    case False
    from "1.prems" obtain j where k: "k = Suc j" by (cases k) auto
    from False "1.prems" k have j: "0 < j" by (cases j) auto
    from "1.prems" k have "n div 10 < 10 ^ j"
      by (simp add: less_mult_imp_div_less mult.commute)
    from "1.IH"[OF False this j] False k show ?thesis
      by (simp add: digits_of.simps[of n])
  qed
qed

lemma nat_of_digits_lt: "list_all is_digit ds \<Longrightarrow> nat_of_digits ds < 10 ^ length ds"
proof (induction ds rule: rev_induct)
  case Nil
  show ?case by (simp add: nat_of_digits_def)
next
  case (snoc d ds)
  then have ih: "nat_of_digits ds < 10 ^ length ds" and d: "digit_val d < 10"
    by (simp_all add: digit_val_lt)
  from ih have "nat_of_digits ds + 1 \<le> 10 ^ length ds" by simp
  then have "10 * (nat_of_digits ds + 1) \<le> 10 * 10 ^ length ds"
    by (rule mult_le_mono2)
  with d show ?case
    by (simp add: nat_of_digits_append nat_of_digits_single)
qed

lemma norm_dec_zero: "norm_dec 0 e = (0, 0)"
  by (simp add: norm_dec.simps[of 0 e])

lemma norm_dec_decpt:
  "norm_dec M E = (m, e) \<Longrightarrow> 0 < M \<Longrightarrow>
   0 < m \<and> decpt m e = decpt M E \<and> length (digits_of m) \<le> length (digits_of M)"
proof (induction M E rule: norm_dec.induct)
  case (1 M E)
  show ?case
  proof (cases "M mod 10 = 0")
    case True
    with "1.prems" have ge: "\<not> M < 10" and pos: "0 < M div 10" by presburger+
    from True "1.prems" have "norm_dec (M div 10) (E + 1) = (m, e)"
      by (simp add: norm_dec.simps[of M E])
    from "1.IH"[OF _ True this pos] "1.prems"(2)
    have ih: "0 < m" "decpt m e = decpt (M div 10) (E + 1)"
      "length (digits_of m) \<le> length (digits_of (M div 10))" by simp_all
    from ge have "length (digits_of M) = Suc (length (digits_of (M div 10)))"
      by (simp add: digits_of.simps[of M])
    with ih show ?thesis by (simp add: decpt_def)
  next
    case False
    with "1.prems" show ?thesis by (simp add: norm_dec.simps[of M E])
  qed
qed

text \<open>A literal of at most 15 digits is kept as it is, and its float is written as the
  number of the literal.\<close>

lemma mk_finite_short:
  assumes "list_all is_digit ip" "list_all is_digit fp" "ip \<noteq> []"
    and "length ip + length fp \<le> 15"
    and "norm_dec (nat_of_digits (ip @ fp)) (- int (length fp)) = (m, e)"
  shows "mk_finite neg (nat_of_digits (ip @ fp)) (- int (length fp)) = Finite neg m e"
proof (cases "nat_of_digits (ip @ fp) = 0")
  case True
  with assms(5) have "m = 0" by (simp add: norm_dec_zero)
  then show ?thesis by (simp add: mk_finite_def assms(5) exact15_def)
next
  case False
  let ?M = "nat_of_digits (ip @ fp)"
  from False have pos: "0 < ?M" by simp
  note n = norm_dec_decpt[OF assms(5) pos]
  have "?M < 10 ^ length (ip @ fp)"
    by (rule nat_of_digits_lt) (simp add: assms)
  then have len: "length (digits_of ?M) \<le> length ip + length fp"
    using digits_of_length_le[of ?M "length (ip @ fp)"] assms(3) by simp
  have "0 < length (digits_of ?M)" using digits_of_ne[of ?M] by simp
  with len assms(4) n have "exact15 m e"
    by (simp add: exact15_def decpt_def)
  then show ?thesis by (simp add: mk_finite_def assms(5))
qed

lemma float_value_decimal:
  assumes "list_all is_digit ip" "list_all is_digit fp" "ip \<noteq> []"
    and "length ip + length fp \<le> 15"
  shows "float_value (mk_finite False (nat_of_digits (ip @ fp)) (- int (length fp)))
     = Some (decimal_value ip fp)"
proof -
  obtain m e where n: "norm_dec (nat_of_digits (ip @ fp)) (- int (length fp)) = (m, e)"
    by (cases "norm_dec (nat_of_digits (ip @ fp)) (- int (length fp))")
  have "float_value (Finite False m e) = Some (of_nat (nat_of_digits (ip @ fp)) * 10 powi (- int (length fp)))"
    using norm_dec_value[OF n] by (simp add: float_value_def)
  then show ?thesis
    unfolding mk_finite_short[OF assms n]
    by (simp add: nat_of_digits_append decimal_value_def power_int_minus field_simps)
qed

lemma search_number_shape:
  assumes "search_number s = Some g"
  shows "\<exists>ip fp. is_number g ip fp"
proof -
  define t where "t = dropWhile (\<lambda>c. \<not> is_digit c) s"
  from assms have tne: "t \<noteq> []"
    by (auto simp: search_number_def t_def Let_def split: if_splits)
  then have "is_digit (hd t)"
    unfolding t_def using hd_dropWhile[of "\<lambda>c. \<not> is_digit c" s] by auto
  with tne have ipne: "takeWhile is_digit t \<noteq> []" by (cases t) auto
  have ipd: "list_all is_digit (takeWhile is_digit t)"
    by (auto simp: list_all_iff dest: set_takeWhileD)
  show ?thesis
  proof (cases "dropWhile is_digit t")
    case Nil
    with assms tne have "g = takeWhile is_digit t"
      by (simp add: search_number_def t_def[symmetric] Let_def)
    with ipne ipd have "is_number g (takeWhile is_digit t) []"
      by (simp add: is_number_def)
    then show ?thesis by blast
  next
    case (Cons c r')
    show ?thesis
    proof (cases "c = CHR ''.'' \<and> takeWhile is_digit r' \<noteq> []")
      case True
      with Cons assms tne have "g = takeWhile is_digit t @ ''.'' @ takeWhile is_digit r'"
        by (simp add: search_number_def t_def[symmetric] Let_def)
      with ipne ipd True have "is_number g (takeWhile is_digit t) (takeWhile is_digit r')"
        by (auto simp: is_number_def list_all_iff dest: set_takeWhileD)
      then show ?thesis by blast
    next
      case False
      with Cons assms tne have "g = takeWhile is_digit t"
        by (auto simp: search_number_def t_def[symmetric] Let_def)
      with ipne ipd have "is_number g (takeWhile is_digit t) []"
        by (simp add: is_number_def)
      then show ?thesis by blast
    qed
  qed
qed

subsection \<open>The numeric rating\<close>

lemma is_number_number_str:
  "ip \<noteq> [] \<Longrightarrow> list_all is_digit ip \<Longrightarrow> list_all is_digit fp \<Longrightarrow> is_number (number_str ip fp) ip fp"
  by (simp add: is_number_def number_str_def)

lemma digits_then_stop:
  assumes "list_all is_digit xs" "case post of [] \<Rightarrow> True | c # r \<Rightarrow> \<not> is_digit c"
  shows "takeWhile is_digit (xs @ post) = xs" "dropWhile is_digit (xs @ post) = post"
  using assms by (induction xs) (auto split: list.splits)

lemma dropWhile_nondigits:
  assumes "list_all (\<lambda>c. \<not> is_digit c) pre" "t \<noteq> []" "is_digit (hd t)"
  shows "dropWhile (\<lambda>c. \<not> is_digit c) (pre @ t) = t"
  using assms by (induction pre) (auto simp: neq_Nil_conv)

lemma search_number_unfold:
  assumes "dropWhile (\<lambda>c. \<not> is_digit c) s = t" "t \<noteq> []"
  shows "search_number s =
     (case dropWhile is_digit t of
        c # r' \<Rightarrow>
          if c = CHR ''.'' \<and> takeWhile is_digit r' \<noteq> []
          then Some (takeWhile is_digit t @ ''.'' @ takeWhile is_digit r')
          else Some (takeWhile is_digit t)
      | [] \<Rightarrow> Some (takeWhile is_digit t))"
  using assms by (simp add: search_number_def Let_def)

lemma search_number_first:
  assumes "first_number_at pre ip fp post"
  shows "search_number (pre @ number_str ip fp @ post) = Some (number_str ip fp)"
proof -
  from assms have pre: "list_all (\<lambda>c. \<not> is_digit c) pre" and ipne: "ip \<noteq> []"
    and ip: "list_all is_digit ip" and fp: "list_all is_digit fp"
    and post: "case post of [] \<Rightarrow> True | c # r \<Rightarrow> \<not> is_digit c"
    and ext: "fp = [] \<longrightarrow> (case post of c # d # r \<Rightarrow> \<not> (c = CHR ''.'' \<and> is_digit d) | _ \<Rightarrow> True)"
    by (simp_all add: first_number_at_def)
  define t where "t = number_str ip fp @ post"
  have tne: "t \<noteq> []" and hdt: "is_digit (hd t)"
    using ipne ip by (cases ip; simp add: t_def number_str_def)+
  have dw: "dropWhile (\<lambda>c. \<not> is_digit c) (pre @ t) = t"
    by (rule dropWhile_nondigits[OF pre tne hdt])
  note sn = search_number_unfold[OF dw tne]
  show ?thesis
  proof (cases "fp = []")
    case True
    then have t: "t = ip @ post" by (simp add: t_def number_str_def)
    have tw: "takeWhile is_digit t = ip" and dr: "dropWhile is_digit t = post"
      unfolding t using digits_then_stop[OF ip post] by simp_all
    have "search_number (pre @ t) = Some ip"
    proof (cases post)
      case Nil
      then show ?thesis unfolding sn tw dr by simp
    next
      case (Cons c r)
      have "\<not> (c = CHR ''.'' \<and> takeWhile is_digit r \<noteq> [])"
        using ext True Cons by (cases r) auto
      with Cons show ?thesis unfolding sn tw dr by simp
    qed
    with True show ?thesis by (simp add: t_def number_str_def)
  next
    case False
    then have t: "t = ip @ CHR ''.'' # (fp @ post)" by (simp add: t_def number_str_def)
    have tw: "takeWhile is_digit t = ip" and dr: "dropWhile is_digit t = CHR ''.'' # (fp @ post)"
      unfolding t using ip by (simp_all add: takeWhile_digits_point dropWhile_digits_point)
    have tw2: "takeWhile is_digit (fp @ post) = fp"
      by (rule digits_then_stop(1)[OF fp post])
    from False have "search_number (pre @ t) = Some (ip @ ''.'' @ fp)"
      unfolding sn tw dr by (simp add: tw2)
    with False show ?thesis by (simp add: t_def number_str_def)
  qed
qed

lemma search_number_no_digit:
  "list_all (\<lambda>c. \<not> is_digit c) s \<Longrightarrow> search_number s = None"
  by (simp add: search_number_def dropWhile_all)

lemma float_str_number:
  "is_number g ip fp \<Longrightarrow>
   float_str g = Inr (mk_finite False (nat_of_digits (ip @ fp)) (- int (length fp)))"
  by (simp add: float_str_def py_float_number)

lemma rating_numeric_cell_total: "\<exists>v. rating_numeric_cell c = Inr v"
proof (cases "search_number (str_cell c)")
  case None
  then show ?thesis by (simp add: rating_numeric_cell_def)
next
  case (Some g)
  from search_number_shape[OF Some] obtain ip fp where "is_number g ip fp" by blast
  from float_str_number[OF this] Some show ?thesis
    by (simp add: rating_numeric_cell_def)
qed

lemma map_exn_Inr:
  "(\<And>x. x \<in> set xs \<Longrightarrow> f x = Inr (g x)) \<Longrightarrow> map_exn f xs = Inr (map g xs)"
  by (induction xs) simp_all

lemma map_of_set_column_same: "map_of (set_column n c df) n = Some c"
  by (induction df) auto

lemma map_of_set_column_other: "k \<noteq> n \<Longrightarrow> map_of (set_column n c df) k = map_of df k"
  by (induction df) auto

lemma extract_numeric_rating_eq:
  assumes "map_of df ''rating'' = Some col"
  shows "extract_numeric_rating df =
     Inr (set_column ''rating_numeric'' (map (\<lambda>c. to_numeric (projr (rating_numeric_cell c))) col) df)"
proof -
  have "map_exn rating_numeric_cell col = Inr (map (\<lambda>c. projr (rating_numeric_cell c)) col)"
  proof (rule map_exn_Inr)
    fix x
    from rating_numeric_cell_total[of x] show "rating_numeric_cell x = Inr (projr (rating_numeric_cell x))"
      by auto
  qed
  with assms show ?thesis by (simp add: extract_numeric_rating_def comp_def)
qed

lemma rating_numeric_cell_sentinel: "rating_numeric_cell (Str ''No rating'') = Inr None"
  by (simp add: rating_numeric_cell_def)

lemma rating_numeric_cell_no_digit:
  "list_all (\<lambda>c. \<not> is_digit c) s \<Longrightarrow> rating_numeric_cell (Str s) = Inr None"
  by (simp add: rating_numeric_cell_def search_number_no_digit)

lemma first_number_not_sentinel:
  assumes "first_number_at pre ip fp post"
  shows "pre @ number_str ip fp @ post \<noteq> ''No rating''"
proof
  assume eq: "pre @ number_str ip fp @ post = ''No rating''"
  from assms obtain d ds where "ip = d # ds" "is_digit d"
    by (cases ip) (auto simp: first_number_at_def)
  then have "d \<in> set (pre @ number_str ip fp @ post)" by (simp add: number_str_def)
  with eq have "d \<in> set ''No rating''" by simp
  with \<open>is_digit d\<close> show False by (auto simp: is_digit_def)
qed

lemma rating_numeric_cell_first:
  assumes "first_number_at pre ip fp post"
  shows "rating_numeric_cell (Str (pre @ number_str ip fp @ post))
     = Inr (Some (mk_finite False (nat_of_digits (ip @ fp)) (- int (length fp))))"
proof -
  from assms have n: "is_number (number_str ip fp) ip fp"
    by (simp add: first_number_at_def is_number_number_str)
  from assms have ne: "pre @ number_str ip fp @ post \<noteq> []"
    by (auto simp: first_number_at_def number_str_def)
  show ?thesis
    using ne first_number_not_sentinel[OF assms]
    by (simp add: rating_numeric_cell_def search_number_first[OF assms] float_str_number[OF n])
qed

text \<open>
  Claim C6. For every record, \<^verbatim>\<open>rating_numeric\<close> is the float of the first
  decimal number found in the \<^verbatim>\<open>rating\<close> string, and it is absent (NaN) when
  the string is the sentinel \<^verbatim>\<open>No rating\<close> or holds no digit. The stage never
  raises here: the matched text is always accepted by \<^verbatim>\<open>float\<close>. When the
  number has at most 15 digits the float is written as that very number; a longer one is
  rounded to binary64 (and may overflow to infinity).
\<close>

theorem rating_numeric_is_first_number:
  assumes "map_of df ''rating'' = Some col" and "i < length col" and "col ! i = Str s"
  shows "\<exists>df' rn. extract_numeric_rating df = Inr df' \<and>
           map_of df' ''rating_numeric'' = Some rn \<and> length rn = length col \<and>
           (s = ''No rating'' \<longrightarrow> rn ! i = Num NaN) \<and>
           (list_all (\<lambda>c. \<not> is_digit c) s \<longrightarrow> rn ! i = Num NaN) \<and>
           (\<forall>pre ip fp post. s = pre @ number_str ip fp @ post \<and> first_number_at pre ip fp post \<longrightarrow>
              (\<exists>x. rn ! i = Num x \<and> py_float (number_str ip fp) = Some x \<and>
                   (length ip + length fp \<le> 15 \<longrightarrow> float_value x = Some (decimal_value ip fp))))"
proof -
  let ?rn = "map (\<lambda>c. to_numeric (projr (rating_numeric_cell c))) col"
  let ?df = "set_column ''rating_numeric'' ?rn df"
  have i: "?rn ! i = to_numeric (projr (rating_numeric_cell (Str s)))"
    using assms(2,3) by simp
  have "extract_numeric_rating df = Inr ?df"
    by (rule extract_numeric_rating_eq[OF assms(1)])
  moreover have "map_of ?df ''rating_numeric'' = Some ?rn"
    by (rule map_of_set_column_same)
  moreover have "length ?rn = length col" by simp
  moreover have "s = ''No rating'' \<longrightarrow> ?rn ! i = Num NaN"
    unfolding i by (simp add: rating_numeric_cell_sentinel to_numeric_def)
  moreover have "list_all (\<lambda>c. \<not> is_digit c) s \<longrightarrow> ?rn ! i = Num NaN"
    unfolding i by (simp add: rating_numeric_cell_no_digit to_numeric_def)
  moreover have "\<forall>pre ip fp post. s = pre @ number_str ip fp @ post \<and> first_number_at pre ip fp post \<longrightarrow>
              (\<exists>x. ?rn ! i = Num x \<and> py_float (number_str ip fp) = Some x \<and>
                   (length ip + length fp \<le> 15 \<longrightarrow> float_value x = Some (decimal_value ip fp)))"
  proof (intro allI impI, elim conjE)
    fix pre ip fp post
    assume s: "s = pre @ number_str ip fp @ post" and f: "first_number_at pre ip fp post"
    let ?x = "mk_finite False (nat_of_digits (ip @ fp)) (- int (length fp))"
    from f have d: "ip \<noteq> []" "list_all is_digit ip" "list_all is_digit fp"
      by (simp_all add: first_number_at_def)
    have "?rn ! i = Num ?x"
      unfolding i s by (simp add: rating_numeric_cell_first[OF f] to_numeric_def)
    moreover have "py_float (number_str ip fp) = Some ?x"
      by (rule py_float_number) (rule is_number_number_str[OF d])
    moreover have "length ip + length fp \<le> 15 \<longrightarrow> float_value ?x = Some (decimal_value ip fp)"
      using float_value_decimal[OF d(2,3,1)] by simp
    ultimately show "\<exists>x. ?rn ! i = Num x \<and> py_float (number_str ip fp) = Some x \<and>
                   (length ip + length fp \<le> 15 \<longrightarrow> float_value x = Some (decimal_value ip fp))"
      by blast
  qed
  ultimately show ?thesis by blast
qed

theorem rating_numeric_is_first_number_witness:
  "\<exists>df' rn. extract_numeric_rating [(''rating'', [Str ''4.5 stars'', Str ''No rating''])] = Inr df' \<and>
     map_of df' ''rating_numeric'' = Some rn \<and> length rn = 2 \<and>
     (\<exists>x. rn ! 0 = Num x \<and> py_float ''4.5'' = Some x \<and> float_value x = Some (9 / 2))"
proof -
  let ?col = "[Str ''4.5 stars'', Str ''No rating'']"
  let ?df = "[(''rating'', ?col)]"
  have fn: "first_number_at [] ''4'' ''5'' '' stars''"
    by (simp add: first_number_at_def is_digit_def)
  have dv: "decimal_value ''4'' ''5'' = 9 / 2"
    by (simp add: decimal_value_def nat_of_digits_def digit_val_def)
  have ns: "number_str ''4'' ''5'' = ''4.5''"
    by (simp add: number_str_def)
  have h1: "map_of ?df ''rating'' = Some ?col" by simp
  have h2: "0 < length ?col" by simp
  have h3: "?col ! 0 = Str ''4.5 stars''" by simp
  from rating_numeric_is_first_number[OF h1 h2 h3]
  obtain df' rn where
    a: "extract_numeric_rating ?df = Inr df'"
    and b: "map_of df' ''rating_numeric'' = Some rn" and c: "length rn = length ?col"
    and d: "\<forall>pre ip fp post. ''4.5 stars'' = pre @ number_str ip fp @ post \<and> first_number_at pre ip fp post \<longrightarrow>
              (\<exists>x. rn ! 0 = Num x \<and> py_float (number_str ip fp) = Some x \<and>
                   (length ip + length fp \<le> 15 \<longrightarrow> float_value x = Some (decimal_value ip fp)))"
    by blast
  have "''4.5 stars'' = [] @ number_str ''4'' ''5'' @ '' stars''"
    by (simp add: number_str_def)
  with d fn have "\<exists>x. rn ! 0 = Num x \<and> py_float (number_str ''4'' ''5'') = Some x \<and>
       (length ''4'' + length ''5'' \<le> (15::nat) \<longrightarrow> float_value x = Some (decimal_value ''4'' ''5''))"
    by blast
  then have "\<exists>x. rn ! 0 = Num x \<and> py_float ''4.5'' = Some x \<and> float_value x = Some (9 / 2)"
    unfolding dv ns by simp
  moreover from c have "length rn = 2" by simp
  ultimately show ?thesis using a b by blast
qed

subsection \<open>Coordinates\<close>

lemmas py_float_eval =
  py_float_def float_strip_def float_space_def is_digit_def parse_decimal_def parse_exponent_def
  mk_finite_def norm_dec.simps exact15_def decpt_def digits_of.simps digit_char_def
  nat_of_digits_def digit_val_def lower_char_def Let_def float_str_def

lemma float_str_110_4: "float_str ''110.4'' = Inr (Finite False 1104 (- 1))"
  by (simp add: py_float_eval)

lemma float_str_abc: "float_str ''abc'' = Inl ValueError"
  by (simp add: py_float_eval)

lemma float_str_lat: "float_str ''-6.9667'' = Inr (Finite True 69667 (- 4))"
  by (simp add: py_float_eval)

lemma float_str_lng: "float_str ''110.4167'' = Inr (Finite False 1104167 (- 4))"
  by (simp add: py_float_eval)

lemma split_coordinates_examples:
  "split_coordinates_cell (Str ''-6.9667,110.4167'') =
     (Some (Finite True 69667 (- 4)), Some (Finite False 1104167 (- 4)), [])"
  "split_coordinates_cell (Str ''abc,110.4'') =
     (None, None, [FailedToParseCoordinates (Str ''abc,110.4'') ValueError])"
  "split_coordinates_cell (Str ''No coordinates'') = (None, None, [])"
  by (simp_all add: split_coordinates_cell_def float_str_lat float_str_lng float_str_abc)

lemma split_coordinates_cell_sentinel:
  "split_coordinates_cell (Str ''No coordinates'') = (None, None, [])"
  "split_coordinates_cell (Str []) = (None, None, [])"
  by (simp_all add: split_coordinates_cell_def)

lemma split_coordinates_cell_first_bad:
  assumes "split_comma s = [a, b]" and "py_float a = None"
  shows "split_coordinates_cell (Str s) = (None, None, []) \<or>
         split_coordinates_cell (Str s) = (None, None, [FailedToParseCoordinates (Str s) ValueError])"
  using assms by (simp add: split_coordinates_cell_def float_str_def)

lemma split_coordinates_cell_malformed:
  assumes "length (split_comma s) \<noteq> 2"
  shows "split_coordinates_cell (Str s) = (None, None, []) \<or>
         split_coordinates_cell (Str s) = (None, None, [FailedToParseCoordinates (Str s) ValueError])"
proof (cases "split_comma s")
  case Nil
  then show ?thesis by (simp add: split_coordinates_cell_def)
next
  case (Cons a as)
  note c1 = this
  show ?thesis
  proof (cases as)
    case Nil
    with c1 show ?thesis by (simp add: split_coordinates_cell_def)
  next
    case (Cons b bs)
    with c1 assms obtain c cs where "bs = c # cs" by (cases bs) auto
    with c1 Cons show ?thesis by (simp add: split_coordinates_cell_def)
  qed
qed

lemma split_coordinates_cell_second_bad:
  assumes "split_comma s = [a, b]" and "py_float a = Some x" and "py_float b = None"
    and "s \<noteq> ''No coordinates''"
  shows "split_coordinates_cell (Str s) =
           (Some x, None, [FailedToParseCoordinates (Str s) ValueError])"
proof -
  from assms(1) have "s \<noteq> []" by auto
  with assms show ?thesis by (simp add: split_coordinates_cell_def float_str_def)
qed

lemma split_coordinates_cell_good:
  assumes "split_comma s = [a, b]" and "py_float a = Some x" and "py_float b = Some y"
    and "s \<noteq> ''No coordinates''"
  shows "split_coordinates_cell (Str s) = (Some x, Some y, [])"
proof -
  from assms(1) have "s \<noteq> []" by auto
  with assms show ?thesis by (simp add: split_coordinates_cell_def float_str_def)
qed

text \<open>
  Claim C5. The coordinate string is split on the comma and both parts are read as
  floats; a failure is logged and never raised. The claim says that any non-numeric
  component leaves both \<^verbatim>\<open>latitude\<close> and \<^verbatim>\<open>longitude\<close> absent. When
  the second component is the bad one, \<^verbatim>\<open>latitude\<close> has already been stored:
  for \<^verbatim>\<open>110.4,abc\<close> the record keeps latitude 110.4 next to an absent longitude.
\<close>

theorem split_coordinates_second_component:
  "split_coordinates [(''coordinates'', [Str ''110.4,abc''])] =
     ([(''coordinates'', [Str ''110.4,abc'']),
       (''latitude'', [Num (Finite False 1104 (- 1))]),
       (''longitude'', [Num NaN])],
      [FailedToParseCoordinates (Str ''110.4,abc'') ValueError])"
  by (simp add: split_coordinates_def split_coordinates_cell_def float_str_110_4 float_str_abc
      to_numeric_def)

subsection \<open>Parsing a rating again\<close>





















subsection \<open>Loading\<close>

lemma clean_and_transform_empty:
  "clean_and_transform now [] = Inr ([], [LogWarning ''No data to transform''])"
  by (simp add: clean_and_transform_def)

lemma load_writes_both:
  assumes "\<not> df_empty data" "\<not> makedirs_fails io (target_dir c)" "\<not> write_fails io c"
    "\<not> makedirs_fails io (target_dir j)" "\<not> write_fails io j"
  shows "\<exists>fs'. load io data c j fs = (True, fs', []) \<and> files fs' j = Some (JsonLines data) \<and>
     (c \<noteq> j \<longrightarrow> files fs' c = Some (CsvFile data))"
  using assms by (simp add: load_def save_to_csv_def save_to_json_def save_to_def Let_def)

text \<open>
  Claim C8. Given an empty record set, \<^verbatim>\<open>load\<close> returns \<^verbatim>\<open>False\<close>, raises
  nothing and leaves the file system as it was: no directory and no file is created.
\<close>

theorem load_empty_is_noop:
  "df_empty data \<Longrightarrow>
   load io data output_csv output_json fs = (False, fs, [LogWarning ''No data to load''])"
  by (simp add: load_def)

theorem load_empty_is_noop_witness:
  "clean_and_transform 0 [] = Inr ([], [LogWarning ''No data to transform'']) \<and>
   df_empty [] \<and>
   load plain_io [] ''output/semarang_coffee_shops.csv'' ''output/semarang_coffee_shops.json'' empty_fs
     = (False, empty_fs, [LogWarning ''No data to load''])"
proof -
  have e: "df_empty []" by (simp add: df_empty_def)
  from load_empty_is_noop[OF e] e clean_and_transform_empty show ?thesis by simp
qed

subsection \<open>Extraction: general facts and example runs\<close>

lemma launch_and_search_results:
  "launch_and_search le st = (r, st1) \<Longrightarrow> results st1 = results st"
  by (auto simp: launch_and_search_def setup_driver_def split: option.splits sum.splits prod.splits)

lemma extract_place_cards_raise_results:
  "extract_place_cards ev st = (Inl e, st1) \<Longrightarrow> results st1 = results st"
  by (auto simp: extract_place_cards_def Let_def split: option.splits sum.splits prod.splits)

text \<open>
  The extraction phase cannot raise after it has collected a record: the card loop
  catches every exception of a card, so an exception leaves the phase only before the
  loop, and \<^verbatim>\<open>self.results\<close> is then what it was when \<^verbatim>\<open>extract\<close> was
  called.
\<close>

lemma extraction_phase_raise_results:
  assumes "extraction_phase ev st = (Inl e, st1)"
  shows "results st1 = results st"
proof (cases "launch_and_search (launch ev) st")
  case (Pair r st0)
  show ?thesis
  proof (cases r)
    case (Inl e0)
    with Pair assms have "st1 = st0" by (simp add: extraction_phase_def)
    with launch_and_search_results[OF Pair] show ?thesis by simp
  next
    case (Inr u)
    with Pair assms have "extract_place_cards ev st0 = (Inl e, st1)"
      by (simp add: extraction_phase_def)
    from extract_place_cards_raise_results[OF this] launch_and_search_results[OF Pair]
    show ?thesis by simp
  qed
qed

lemma extraction_phase_raise_fresh:
  "extraction_phase ev new_extractor = (Inl e, st1) \<Longrightarrow> results st1 = []"
  by (drule extraction_phase_raise_results) (simp add: new_extractor_def)

lemma main_exit_status_always_one: "fst (main ev io now fs) = 1"
  by (auto simp: main_def run_pipeline_def split: sum.splits prod.splits)

lemma search_at_kopi:
  "search_at ''https://www.google.com/maps/place/Kopi/@-6.9667,110.4167,17z'' = Some (''-6.9667'', ''110.4167'')"
  by (simp add: search_at_def match_pair_def match_float_def is_digit_def)

lemma strip_kopi: "strip ''Kopi '' = ''Kopi''" "strip ''4.5'' = ''4.5''"
  by (simp_all add: strip_def is_space_def)

lemma place_data_kopi: "place_data kopi_page = Inr kopi_record"
  by (simp add: place_data_def extract_coordinates_def kopi_page_def quiet_page_def search_at_kopi
      fmt_pair_def extract_name_def extract_address_def extract_rating_def name_selectors_def
      address_selectors_def rating_selectors_def strip_kopi kopi_record_def)

lemma launch_ok:
  "launch_and_search ok_launch st =
     (Inr (), st\<lparr>driver := Some (launches st), launches := Suc (launches st),
                 trace := trace st @ [Launched (launches st)]\<rparr>)"
  by (simp add: launch_and_search_def setup_driver_def navigate_to_google_maps_def
      search_for_places_def scroll_results_def ok_launch_def search_box_selectors_def)

lemma launch_offline:
  "launch_and_search (ok_launch\<lparr>navigate_exn := Some e\<rparr>) st =
     (Inl e, st\<lparr>driver := Some (launches st), launches := Suc (launches st),
                 trace := trace st @ [Launched (launches st)]\<rparr>)"
  by (simp add: launch_and_search_def setup_driver_def navigate_to_google_maps_def ok_launch_def)

lemma go_back_ok:
  "driver st \<noteq> None \<Longrightarrow> go_back_to_list back_ok st"
  "\<not> go_back_to_list back_broken st"
  by (auto simp: go_back_to_list_def back_ok_def back_broken_def back_button_selectors_def
      split: option.splits)

lemma open_card_driver: "driver st \<noteq> None \<Longrightarrow> open_card ce st = open_exn ce"
  by (auto simp: open_card_def split: option.splits)

lemma single_place_good:
  "driver st \<noteq> None \<Longrightarrow>
   extract_single_place good_card idx c st =
     (Inr (Some kopi_record), st\<lparr>trace := trace st @ [Opened (driver st) c]\<rparr>)"
  by (simp add: extract_single_place_def open_card_driver go_back_ok place_data_kopi)
     (simp add: good_card_def place_data_kopi go_back_ok)

text \<open>Without a driver no card can be opened: the first driver call raises, the list
  cannot be reached either, and the handler restarts the browser; nothing is returned
  for the card.\<close>

lemma single_place_no_driver:
  "driver st = None \<Longrightarrow> fst (extract_single_place good_card idx c st) = Inr None"
  by (simp add: extract_single_place_def open_card_def recover_single_place_def
      go_back_to_list_def good_card_def restart_browser_and_search_def launch_ok)

lemma count_one: "count_cards (\<lambda>s. if s = ''div.Nv2PK'' then Inr 1 else Inr 0) = Inr 1"
  "count_cards (\<lambda>s. if s = ''div.Nv2PK'' then Inr 2 else Inr 0) = Inr 2"
  by (simp_all add: count_cards_def)

lemma kopi_ne: "kopi_record \<noteq> []"
  by (simp add: kopi_record_def)

lemma upt_small: "[0..<1] = [0]" "[0..<2] = [0, 1]" "[0..<Suc (Suc 0)] = [0, Suc 0]"
  by (simp_all add: upt_rec)

lemma extract_quiet:
  "extract_records quiet_env new_extractor =
     (Inr [kopi_record],
      \<lparr>driver = Some 0, launches = 1, results = [kopi_record],
       trace = [Launched 0, Enumerated 0, Opened (Some 0) \<lparr>card_session = 0, card_index = 0\<rparr>]\<rparr>)"
  by (simp add: extract_records_def extraction_phase_def quiet_env_def launch_ok new_extractor_def
      extract_place_cards_def count_one upt_small single_place_good kopi_ne close_def Let_def)

subsection \<open>Partial results, the exception of a failed extraction, and the exit status\<close>

lemma phase_offline:
  "extraction_phase (offline_env\<lparr>quit_exn := q\<rparr>) st =
     (Inl (DriverError ''net::ERR_INTERNET_DISCONNECTED''),
      st\<lparr>driver := Some (launches st), launches := Suc (launches st),
         trace := trace st @ [Launched (launches st)]\<rparr>)"
  by (simp add: extraction_phase_def offline_env_def quiet_env_def launch_offline)



text \<open>
  Claim C10. In a first call of \<^verbatim>\<open>extract\<close> the page cannot be loaded: the
  extraction phase raises with nothing collected, and the \<^verbatim>\<open>except\<close> branch
  raises that exception again. Quitting the driver raises too, and the caller receives
  the exception of \<^verbatim>\<open>quit\<close>, not the one the extraction failed with. (Nothing is
  returned, so the part of the claim that no empty list is returned holds, see
  \<open>extract_after_raise\<close>.)
\<close>

theorem extract_raises_other_exception_when_quit_raises:
  "extraction_phase offline_quit_env new_extractor =
     (Inl (DriverError ''net::ERR_INTERNET_DISCONNECTED''),
      \<lparr>driver = Some 0, launches = 1, results = [], trace = [Launched 0]\<rparr>) \<and>
   fst (extract_records offline_quit_env new_extractor) =
     Inl (DriverError ''chromedriver not reachable'') \<and>
   fst (extract_records offline_quit_env new_extractor) \<noteq>
     Inl (DriverError ''net::ERR_INTERNET_DISCONNECTED'')"
  by (simp add: offline_quit_env_def phase_offline extract_records_def close_def new_extractor_def)

lemma extract_offline:
  "fst (extract_records offline_env new_extractor) = Inl (DriverError ''net::ERR_INTERNET_DISCONNECTED'')"
  using phase_offline[of None new_extractor]
  by (simp add: offline_env_def quiet_env_def extract_records_def close_def new_extractor_def)

lemma transform_kopi: "clean_and_transform 0 [kopi_record] = Inr (kopi_frame, [])"
  by (simp add: clean_and_transform_def kopi_record_def DataFrame_def frame_columns_def
      clean_names_def clean_name_cell_def strip_def is_space_def
      extract_numeric_rating_def rating_numeric_cell_def search_number_def py_float_eval
      split_coordinates_def split_coordinates_examples to_numeric_def kopi_frame_def)

lemma load_kopi:
  "fst (load plain_io kopi_frame ''output/semarang_coffee_shops.csv''
          ''output/semarang_coffee_shops.json'' empty_fs) = True"
  by (simp add: load_def df_empty_def nrows_def kopi_frame_def save_to_csv_def save_to_json_def
      save_to_def plain_io_def Let_def)

text \<open>
  Claim C1. A run in which extract, transform and load all complete, and both files are
  written, exits with status 1: \<^verbatim>\<open>run_pipeline\<close> returns \<^verbatim>\<open>None\<close>, which
  \<^verbatim>\<open>main\<close> tests as false. By \<open>main_exit_status_always_one\<close> no run exits
  with status 0.
\<close>

theorem main_exit_status_after_success:
  "fst (extract_records quiet_env new_extractor) = Inr [kopi_record] \<and>
   clean_and_transform 0 [kopi_record] = Inr (kopi_frame, []) \<and>
   fst (load plain_io kopi_frame ''output/semarang_coffee_shops.csv''
          ''output/semarang_coffee_shops.json'' empty_fs) = True \<and>
   fst (run_pipeline quiet_env plain_io 0 empty_fs) = PyNone \<and>
   fst (main quiet_env plain_io 0 empty_fs) = 1"
proof -
  have rp: "fst (run_pipeline quiet_env plain_io 0 empty_fs) = PyNone"
    by (simp add: run_pipeline_def extract_quiet transform_kopi split: prod.splits)
  show ?thesis
    by (simp add: extract_quiet transform_kopi load_kopi rp main_exit_status_always_one)
qed

subsection \<open>The fields of a record\<close>

lemma search_at_quiet: "search_at ''https://www.google.com/maps/search/coffee+shop'' = None"
  by (simp add: search_at_def match_pair_def)

text \<open>
  Claim C2. The three pattern branches of \<^verbatim>\<open>_extract_coordinates\<close> return two
  matched numbers joined by a comma. The meta-tag branch returns the two
  \<^verbatim>\<open>content\<close> attributes as they are, checking only that they are not empty: a
  page whose tags use decimal commas gives \<^verbatim>\<open>-6,9667,110,4167\<close>, which is
  neither the sentinel nor two floats separated by a comma.
\<close>

theorem coordinates_from_meta_tags_unchecked:
  "extract_coordinates meta_page = Inr ''-6,9667,110,4167'' \<and>
   ''-6,9667,110,4167'' \<noteq> ''No coordinates'' \<and>
   \<not> coordinates_wellformed ''-6,9667,110,4167''"
  by (simp add: extract_coordinates_def meta_page_def quiet_page_def search_at_quiet
      share_link_selectors_def coordinates_wellformed_def)

lemma first_text_field_value:
  "sentinel \<noteq> [] \<Longrightarrow> field_value p ls sentinel (first_text p ls sentinel)"
proof (induction ls)
  case Nil
  then show ?case by (simp add: field_value_def)
next
  case (Cons l ls)
  from Cons have ih: "field_value p ls sentinel (first_text p ls sentinel)" by simp
  show ?case
  proof (cases "elem_text p l")
    case None
    with ih show ?thesis by (auto simp: field_value_def)
  next
    case (Some t)
    show ?thesis
    proof (cases "strip t = []")
      case True
      with Some ih show ?thesis by (auto simp: field_value_def)
    next
      case False
      with Some show ?thesis by (simp add: field_value_def)
    qed
  qed
qed

lemma fmt_pair_ne: "fmt_pair m \<noteq> []"
  by (simp add: fmt_pair_def)

lemma share_link_coordinates_ne: "share_link_coordinates p ls = Some c \<Longrightarrow> c \<noteq> []"
  by (induction ls) (auto simp: fmt_pair_ne split: option.splits if_splits)

lemma script_coordinates_ne: "script_coordinates ss = Some c \<Longrightarrow> c \<noteq> []"
  by (induction ss rule: script_coordinates.induct) (auto simp: fmt_pair_ne split: option.splits)

lemma meta_coordinates_ne: "meta_coordinates lng ms = Some c \<Longrightarrow> c \<noteq> []"
  by (induction ms) (auto split: option.splits if_splits)

lemma extract_coordinates_ne: "extract_coordinates p = Inr c \<Longrightarrow> c \<noteq> []"
  by (auto simp: extract_coordinates_def fmt_pair_ne split: sum.splits option.splits
      dest: share_link_coordinates_ne script_coordinates_ne meta_coordinates_ne)

text \<open>The loops of the coordinate chain return the first candidate of their sources.\<close>

lemma share_link_coordinates_first:
  "share_link_coordinates p ls =
     (case somes (map (share_candidate p) ls) of [] \<Rightarrow> None | c # cs \<Rightarrow> Some c)"
  by (induction ls) (auto simp: share_candidate_def split: option.splits)

lemma script_coordinates_first:
  "script_coordinates ss =
     (case somes (map script_candidate ss) of [] \<Rightarrow> None | c # cs \<Rightarrow> Some c)"
  by (induction ss rule: script_coordinates.induct)
     (auto simp: script_candidate_def split: option.splits)

lemma meta_coordinates_first:
  "meta_coordinates lng ms =
     (case somes (map (meta_candidate lng) ms) of [] \<Rightarrow> None | c # cs \<Rightarrow> Some c)"
  by (induction ms) (auto simp: meta_candidate_def split: option.splits)

lemma somes_append: "somes (xs @ ys) = somes xs @ somes ys"
  by (induction xs rule: somes.induct) simp_all

lemma first_append:
  "(case xs @ ys of [] \<Rightarrow> d | c # cs \<Rightarrow> c) =
     (case xs of [] \<Rightarrow> (case ys of [] \<Rightarrow> d | c # cs \<Rightarrow> c) | c # cs \<Rightarrow> c)"
  by (cases xs) simp_all

text \<open>
  \<^verbatim>\<open>_extract_coordinates\<close> refines the words of the specification: when the
  address bar can be read, its result is the first candidate in the order URL, share
  links, script tags, meta tags, and the sentinel when there is no candidate.
\<close>

lemma extract_coordinates_value:
  assumes "extract_coordinates p = Inr co"
  shows "coordinates_value p co"
proof -
  from assms obtain url where url: "current_url p = Inr url"
    by (auto simp: extract_coordinates_def split: sum.splits)
  let ?sh = "somes (map (share_candidate p) share_link_selectors)"
  let ?sc = "somes (case script_tags p of None \<Rightarrow> [] | Some ss \<Rightarrow> map script_candidate ss)"
  let ?me = "somes (case meta_tags p of None \<Rightarrow> []
                    | Some ms \<Rightarrow> map (meta_candidate (og_longitude p)) ms)"
  have cands: "coordinate_candidates p = somes [url_candidate p] @ ?sh @ ?sc @ ?me"
    unfolding coordinate_candidates_def somes_append ..
  show ?thesis
  proof (cases "search_at url")
    case (Some m)
    with assms url have "co = fmt_pair m" by (simp add: extract_coordinates_def)
    with Some url show ?thesis
      by (simp add: coordinates_value_def cands url_candidate_def)
  next
    case None
    then have u: "somes [url_candidate p] = []" using url by (simp add: url_candidate_def)
    show ?thesis
    proof (cases ?sh)
      case (Cons c cs)
      then have "share_link_coordinates p share_link_selectors = Some c"
        by (simp add: share_link_coordinates_first)
      with assms url None have "co = c" by (simp add: extract_coordinates_def)
      with Cons show ?thesis by (simp add: coordinates_value_def cands u)
    next
      case Nil
      then have sh: "share_link_coordinates p share_link_selectors = None"
        by (simp add: share_link_coordinates_first)
      show ?thesis
      proof (cases ?sc)
        case (Cons c cs)
        then have "(case script_tags p of None \<Rightarrow> None | Some ss \<Rightarrow> script_coordinates ss) = Some c"
          by (cases "script_tags p") (simp_all add: script_coordinates_first)
        with assms url None sh have "co = c" by (simp add: extract_coordinates_def)
        with Cons Nil show ?thesis by (simp add: coordinates_value_def cands u)
      next
        case Nil
        note sc = this
        then have scn: "(case script_tags p of None \<Rightarrow> None | Some ss \<Rightarrow> script_coordinates ss) = None"
          by (cases "script_tags p") (simp_all add: script_coordinates_first split: list.splits)
        show ?thesis
        proof (cases ?me)
          case (Cons c cs)
          then have "(case meta_tags p of None \<Rightarrow> None
                      | Some ms \<Rightarrow> meta_coordinates (og_longitude p) ms) = Some c"
            by (cases "meta_tags p") (simp_all add: meta_coordinates_first)
          with assms url None sh scn have "co = c" by (simp add: extract_coordinates_def)
          with Cons sc \<open>?sh = []\<close> show ?thesis by (simp add: coordinates_value_def cands u)
        next
          case Nil
          then have "(case meta_tags p of None \<Rightarrow> None
                      | Some ms \<Rightarrow> meta_coordinates (og_longitude p) ms) = None"
            by (cases "meta_tags p") (simp_all add: meta_coordinates_first split: list.splits)
          with assms url None sh scn have "co = ''No coordinates''"
            by (simp add: extract_coordinates_def)
          with Nil sc \<open>?sh = []\<close> show ?thesis by (simp add: coordinates_value_def cands u)
        qed
      qed
    qed
  qed
qed

lemma place_data_fields:
  assumes "place_data p = Inr pd"
  shows "\<exists>n a r co. pd = [(''name'', n), (''address'', a), (''rating'', r), (''coordinates'', co)] \<and>
           field_value p name_selectors ''No name'' n \<and>
           field_value p address_selectors ''No address'' a \<and>
           field_value p rating_selectors ''No rating'' r \<and>
           coordinates_value p co \<and> co \<noteq> []"
proof -
  from assms obtain co where co: "extract_coordinates p = Inr co"
    and pd: "pd = [(''name'', extract_name p), (''address'', extract_address p),
                   (''rating'', extract_rating p), (''coordinates'', co)]"
    by (auto simp: place_data_def split: sum.splits)
  have "field_value p name_selectors ''No name'' (extract_name p)"
    unfolding extract_name_def by (rule first_text_field_value) simp
  moreover have "field_value p address_selectors ''No address'' (extract_address p)"
    unfolding extract_address_def by (rule first_text_field_value) simp
  moreover have "field_value p rating_selectors ''No rating'' (extract_rating p)"
    unfolding extract_rating_def by (rule first_text_field_value) simp
  ultimately show ?thesis
    using co pd extract_coordinates_ne[OF co] extract_coordinates_value[OF co] by blast
qed

lemma recover_single_place_no_record: "fst (recover_single_place ce st) \<noteq> Inr (Some pd)"
  by (auto simp: recover_single_place_def split: prod.splits sum.splits)

lemma extract_single_place_record:
  assumes "extract_single_place ce idx c st = (Inr (Some pd), st')"
  shows "place_data (detail ce) = Inr pd"
proof (cases "place_data (detail ce)")
  case (Inl e)
  with assms recover_single_place_no_record[of ce _ pd] show ?thesis
    by (auto simp: extract_single_place_def Let_def split: option.splits dest: arg_cong[where f = fst])
next
  case (Inr pd')
  with assms recover_single_place_no_record[of ce _ pd] show ?thesis
    by (auto simp: extract_single_place_def Let_def split: option.splits if_splits prod.splits sum.splits
        dest: arg_cong[where f = fst])
qed

text \<open>
  Claim C7. A record returned by \<^verbatim>\<open>_extract_single_place\<close> has exactly the keys
  \<^verbatim>\<open>name\<close>, \<^verbatim>\<open>address\<close>, \<^verbatim>\<open>rating\<close>, \<^verbatim>\<open>coordinates\<close>. Each
  of the first three is the non-empty stripped text of one of its selectors, or the
  field's sentinel when no selector has a non-empty text. The coordinates are the first
  candidate that the address bar, the share links, the script tags and the meta tags
  yield, in that order, or the sentinel when they yield none; they are never empty. By
  \<open>extract_place_cards_four_fields\<close> the same keys are present in every record of the
  list the card loop returns.
\<close>

theorem single_place_record_has_all_fields:
  assumes "extract_single_place ce idx c st = (Inr (Some pd), st')"
  shows "\<exists>n a r co. pd = [(''name'', n), (''address'', a), (''rating'', r), (''coordinates'', co)] \<and>
           field_value (detail ce) name_selectors ''No name'' n \<and>
           field_value (detail ce) address_selectors ''No address'' a \<and>
           field_value (detail ce) rating_selectors ''No rating'' r \<and>
           coordinates_value (detail ce) co \<and> co \<noteq> []"
proof -
  from assms have "place_data (detail ce) = Inr pd"
    by (rule extract_single_place_record)
  then show ?thesis
    by (rule place_data_fields)
qed

lemma single_place_searching:
  "extract_single_place good_card 0 \<lparr>card_session = 0, card_index = 0\<rparr> searching_extractor =
     (Inr (Some kopi_record),
      \<lparr>driver = Some 0, launches = 1, results = [],
       trace = [Launched 0, Enumerated 0, Opened (Some 0) \<lparr>card_session = 0, card_index = 0\<rparr>]\<rparr>)"
  by (simp add: single_place_good searching_extractor_def)

theorem single_place_record_has_all_fields_witness:
  "extract_single_place good_card 0 \<lparr>card_session = 0, card_index = 0\<rparr> searching_extractor =
     (Inr (Some kopi_record),
      \<lparr>driver = Some 0, launches = 1, results = [],
       trace = [Launched 0, Enumerated 0, Opened (Some 0) \<lparr>card_session = 0, card_index = 0\<rparr>]\<rparr>) \<and>
   kopi_record = [(''name'', ''Kopi''), (''address'', ''No address''), (''rating'', ''4.5''),
                  (''coordinates'', ''-6.9667,110.4167'')] \<and>
   field_value (detail good_card) name_selectors ''No name'' ''Kopi'' \<and>
   field_value (detail good_card) address_selectors ''No address'' ''No address'' \<and>
   field_value (detail good_card) rating_selectors ''No rating'' ''4.5'' \<and>
   coordinates_value (detail good_card) ''-6.9667,110.4167''"
  using single_place_record_has_all_fields[OF single_place_searching] single_place_searching
  by (auto simp: kopi_record_def)

lemma single_place_four_fields:
  assumes "extract_single_place ce idx c st = (Inr (Some pd), st')"
  shows "four_fields pd"
  using place_data_fields[OF extract_single_place_record[OF assms]]
  by (auto simp: four_fields_def field_value_def)

lemma card_loop_four_fields:
  "list_all four_fields acc \<Longrightarrow> list_all four_fields (fst (card_loop ces cards acc st))"
proof (induction cards arbitrary: acc st)
  case Nil
  then show ?case by simp
next
  case (Cons ic cards)
  obtain idx c where ic: "ic = (idx, c)" by (cases ic)
  obtain r st1 where e: "extract_single_place (ces idx) idx c st = (r, st1)"
    by (cases "extract_single_place (ces idx) idx c st")
  show ?case
  proof (cases r)
    case (Inl x)
    with e ic Cons show ?thesis by simp
  next
    case (Inr ob)
    show ?thesis
    proof (cases ob)
      case None
      with Inr e ic Cons show ?thesis by simp
    next
      case (Some pd)
      with Inr e have "four_fields pd" by (auto intro: single_place_four_fields)
      with Some Inr e ic Cons show ?thesis by simp
    qed
  qed
qed

lemma extract_place_cards_four_fields:
  assumes "extract_place_cards ev st = (Inr rs, st')"
  shows "list_all four_fields rs"
proof -
  from assms obtain sid n where
    "card_loop (card_envs ev)
       (zip [0..<n] (map (\<lambda>i. \<lparr>card_session = sid, card_index = i\<rparr>) [0..<n])) []
       (st\<lparr>trace := trace st @ [Enumerated sid]\<rparr>) = (rs, st')"
    by (auto simp: extract_place_cards_def Let_def split: option.splits sum.splits prod.splits)
  then have "rs = fst (card_loop (card_envs ev)
       (zip [0..<n] (map (\<lambda>i. \<lparr>card_session = sid, card_index = i\<rparr>) [0..<n])) []
       (st\<lparr>trace := trace st @ [Enumerated sid]\<rparr>))" by simp
  then show ?thesis using card_loop_four_fields[of "[]"] by simp
qed

subsection \<open>Restart after a failed return to the list\<close>

lemma launch_and_search_success:
  assumes "launch_and_search le st = (Inr u, st1)"
  shows "st1 = st\<lparr>driver := Some (launches st), launches := Suc (launches st),
                   trace := trace st @ [Launched (launches st)]\<rparr>"
  using assms
  by (auto simp: launch_and_search_def setup_driver_def split: option.splits sum.splits prod.splits)

lemma place_data_ne: "place_data p = Inr pd \<Longrightarrow> pd \<noteq> []"
  by (auto simp: place_data_def split: sum.splits)

text \<open>
  What the code does get right: when the fields of a card have been extracted, the list
  cannot be reached and the restart completes, the record is returned from the new
  session and the loop appends it.
\<close>

lemma restart_keeps_record:
  assumes "open_card (ces idx) st = None"
    and "place_data (detail (ces idx)) = Inr pd"
    and "\<not> go_back_to_list (back_first (ces idx)) (st\<lparr>trace := trace st @ [Opened (driver st) c]\<rparr>)"
    and "restart_browser_and_search (restart_first (ces idx))
           (st\<lparr>trace := trace st @ [Opened (driver st) c]\<rparr>) = (Inr (), st1)"
  shows "extract_single_place (ces idx) idx c st = (Inr (Some pd), st1) \<and>
         driver st1 = Some (launches st) \<and>
         trace st1 = trace st @ [Opened (driver st) c, Launched (launches st)] \<and>
         card_loop ces ((idx, c) # rest) acc st =
           card_loop ces rest (acc @ [pd]) (st1\<lparr>results := results st1 @ [pd]\<rparr>)"
proof -
  have s: "extract_single_place (ces idx) idx c st = (Inr (Some pd), st1)"
    using assms by (simp add: extract_single_place_def Let_def)
  from assms(4) have st1: "st1 = (st\<lparr>trace := trace st @ [Opened (driver st) c]\<rparr>)
       \<lparr>driver := Some (launches st), launches := Suc (launches st),
        trace := trace st @ [Opened (driver st) c] @ [Launched (launches st)]\<rparr>"
    using launch_and_search_success[of "restart_first (ces idx)"
        "st\<lparr>trace := trace st @ [Opened (driver st) c]\<rparr>" "()" st1]
    by (simp add: restart_browser_and_search_def)
  have l: "card_loop ces ((idx, c) # rest) acc st =
           card_loop ces rest (acc @ [pd]) (st1\<lparr>results := results st1 @ [pd]\<rparr>)"
    using s place_data_ne[OF assms(2)] by simp
  from s l st1 show ?thesis by simp
qed

lemma single_place_restarted:
  "driver st \<noteq> None \<Longrightarrow>
   extract_single_place (good_card\<lparr>back_first := back_broken\<rparr>) idx c st =
     (Inr (Some kopi_record),
      st\<lparr>driver := Some (launches st), launches := Suc (launches st),
         trace := trace st @ [Opened (driver st) c, Launched (launches st)]\<rparr>)"
  by (simp add: extract_single_place_def open_card_driver go_back_ok good_card_def
      place_data_kopi restart_browser_and_search_def launch_ok Let_def)

lemma single_place_stale:
  "driver st \<noteq> None \<Longrightarrow>
   extract_single_place (good_card\<lparr>open_exn := Some e\<rparr>) idx c st =
     (Inr None, st\<lparr>trace := trace st @ [Opened (driver st) c]\<rparr>)"
  by (simp add: extract_single_place_def open_card_driver recover_single_place_def
      good_card_def go_back_ok Let_def)

lemma single_place_lost:
  "driver st \<noteq> None \<Longrightarrow>
   extract_single_place
     (good_card\<lparr>back_first := back_broken, restart_first := ok_launch\<lparr>navigate_exn := Some e\<rparr>\<rparr>) idx c st =
     (Inr None,
      st\<lparr>driver := Some (launches st), launches := Suc (launches st),
         trace := trace st @ [Opened (driver st) c, Launched (launches st)]\<rparr>)"
  by (simp add: extract_single_place_def open_card_driver go_back_ok good_card_def
      place_data_kopi restart_browser_and_search_def launch_offline recover_single_place_def
      Let_def)

lemma extract_restart:
  "extract_records restart_env new_extractor =
     (Inr [kopi_record],
      \<lparr>driver = Some 1, launches = 2, results = [kopi_record],
       trace = [Launched 0, Enumerated 0,
                Opened (Some 0) \<lparr>card_session = 0, card_index = 0\<rparr>,
                Launched 1,
                Opened (Some 1) \<lparr>card_session = 0, card_index = 1\<rparr>]\<rparr>)"
  by (simp add: extract_records_def extraction_phase_def restart_env_def launch_ok new_extractor_def
      extract_place_cards_def count_one upt_small single_place_restarted single_place_stale
      kopi_ne close_def Let_def)

lemma extract_lost:
  "extract_records lost_env new_extractor =
     (Inr [],
      \<lparr>driver = Some 1, launches = 2, results = [],
       trace = [Launched 0, Enumerated 0,
                Opened (Some 0) \<lparr>card_session = 0, card_index = 0\<rparr>,
                Launched 1]\<rparr>)"
  by (simp add: extract_records_def extraction_phase_def lost_env_def launch_ok new_extractor_def
      extract_place_cards_def count_one upt_small single_place_lost close_def Let_def)

text \<open>
  Claim C3. Two runs. In the first there are two cards; after the fields of the first
  have been extracted the list cannot be reached, and the browser is restarted, the
  search repeated and the results scrolled again in session 1. The loop nevertheless
  goes on with the handles it enumerated in session 0: the only enumeration of the run
  is the one made before the loop, and the second card, a handle of session 0, is opened
  in session 1, where it is stale, so that its place is never extracted. In the second
  run there is one card; its fields are extracted, the list cannot be reached, and the
  restart raises: the handler returns \<^verbatim>\<open>None\<close> and the record that had been
  built is dropped.
\<close>

theorem card_list_not_refetched_after_restart:
  "fst (extract_records restart_env new_extractor) = Inr [kopi_record] \<and>
   trace (snd (extract_records restart_env new_extractor)) =
     [Launched 0, Enumerated 0, Opened (Some 0) \<lparr>card_session = 0, card_index = 0\<rparr>,
      Launched 1, Opened (Some 1) \<lparr>card_session = 0, card_index = 1\<rparr>] \<and>
   enumerations (trace (snd (extract_records restart_env new_extractor))) = [0] \<and>
   \<not> cards_current (trace (snd (extract_records restart_env new_extractor))) \<and>
   place_data (detail (card_envs lost_env 0)) = Inr kopi_record \<and>
   \<not> go_back_to_list (back_first (card_envs lost_env 0))
       \<lparr>driver = Some 0, launches = 1, results = [],
        trace = [Launched 0, Enumerated 0, Opened (Some 0) \<lparr>card_session = 0, card_index = 0\<rparr>]\<rparr> \<and>
   fst (extract_records lost_env new_extractor) = Inr []"
proof -
  have a: "place_data (detail (card_envs lost_env 0)) = Inr kopi_record"
    by (simp add: lost_env_def good_card_def place_data_kopi)
  have b: "\<not> go_back_to_list (back_first (card_envs lost_env 0)) st" for st
    by (simp add: lost_env_def good_card_def go_back_ok)
  show ?thesis
    by (simp add: extract_restart extract_lost a b)
qed

subsection \<open>The card loop never enumerates again\<close>

lemma enumerations_append: "enumerations (xs @ ys) = enumerations xs @ enumerations ys"
  by (induction xs rule: enumerations.induct) simp_all

lemma opened_cards_append: "opened_cards (xs @ ys) = opened_cards xs @ opened_cards ys"
  by (induction xs rule: opened_cards.induct) simp_all

lemma launch_and_search_trace:
  assumes "launch_and_search le st = (r, st1)"
  shows "enumerations (trace st1) = enumerations (trace st) \<and>
         opened_cards (trace st1) = opened_cards (trace st)"
  using assms
  by (auto simp: launch_and_search_def setup_driver_def enumerations_append opened_cards_append
      split: option.splits sum.splits prod.splits)

lemma recover_single_place_trace:
  assumes "recover_single_place ce st = (r, st1)"
  shows "enumerations (trace st1) = enumerations (trace st) \<and>
         opened_cards (trace st1) = opened_cards (trace st)"
proof (cases "go_back_to_list (back_second ce) st")
  case True
  with assms show ?thesis by (simp add: recover_single_place_def)
next
  case False
  obtain r2 st2 where a: "restart_browser_and_search (restart_second ce) st = (r2, st2)"
    by (cases "restart_browser_and_search (restart_second ce) st")
  obtain r3 st3 where b: "restart_browser_and_search (restart_third ce) st2 = (r3, st3)"
    by (cases "restart_browser_and_search (restart_third ce) st2")
  from a have ta: "enumerations (trace st2) = enumerations (trace st) \<and>
         opened_cards (trace st2) = opened_cards (trace st)"
    by (simp add: restart_browser_and_search_def launch_and_search_trace)
  from b have tb: "enumerations (trace st3) = enumerations (trace st2) \<and>
         opened_cards (trace st3) = opened_cards (trace st2)"
    by (simp add: restart_browser_and_search_def launch_and_search_trace)
  from assms False a b have "st1 = st2 \<or> st1 = st3"
    by (auto simp: recover_single_place_def split: sum.splits)
  with ta tb show ?thesis by auto
qed

lemma extract_single_place_trace:
  assumes "extract_single_place ce idx c st = (r, st1)"
  shows "enumerations (trace st1) = enumerations (trace st) \<and>
         opened_cards (trace st1) = opened_cards (trace st) @ [c]"
proof -
  define st0 where "st0 = st\<lparr>trace := trace st @ [Opened (driver st) c]\<rparr>"
  have t0: "enumerations (trace st0) = enumerations (trace st)"
    "opened_cards (trace st0) = opened_cards (trace st) @ [c]"
    by (simp_all add: st0_def enumerations_append opened_cards_append)
  obtain r2 st2 where a: "restart_browser_and_search (restart_first ce) st0 = (r2, st2)"
    by (cases "restart_browser_and_search (restart_first ce) st0")
  then have ta: "enumerations (trace st2) = enumerations (trace st0) \<and>
         opened_cards (trace st2) = opened_cards (trace st0)"
    by (simp add: restart_browser_and_search_def launch_and_search_trace)
  obtain r3 st3 where b: "recover_single_place ce st0 = (r3, st3)"
    by (cases "recover_single_place ce st0")
  note tb = recover_single_place_trace[OF b]
  obtain r4 st4 where c: "recover_single_place ce st2 = (r4, st4)"
    by (cases "recover_single_place ce st2")
  note tc = recover_single_place_trace[OF c]
  from assms a b c have "st1 = st0 \<or> st1 = st2 \<or> st1 = st3 \<or> st1 = st4"
    by (auto simp: extract_single_place_def Let_def st0_def[symmetric]
        split: option.splits sum.splits if_splits)
  with t0 ta tb tc show ?thesis by auto
qed

text \<open>
  Whatever the cards do, the loop adds no enumeration to the trace and opens exactly the
  handles it was given, in order, restarts or not.
\<close>

lemma card_loop_trace:
  "card_loop ces cards acc st = (rs, st1) \<Longrightarrow>
   enumerations (trace st1) = enumerations (trace st) \<and>
   opened_cards (trace st1) = opened_cards (trace st) @ map snd cards"
proof (induction cards arbitrary: acc st)
  case Nil
  then show ?case by simp
next
  case (Cons ic cards)
  obtain idx c where ic: "ic = (idx, c)" by (cases ic)
  obtain r st2 where e: "extract_single_place (ces idx) idx c st = (r, st2)"
    by (cases "extract_single_place (ces idx) idx c st")
  note t = extract_single_place_trace[OF e]
  from Cons.prems ic e obtain acc' st2' where
    l: "card_loop ces cards acc' st2' = (rs, st1)" and tr: "trace st2' = trace st2"
    by (auto split: sum.splits option.splits if_splits)
  from Cons.IH[OF l] tr t ic show ?case by simp
qed

subsection \<open>The pattern branches of the coordinate chain\<close>

lemma split_comma_none: "CHR '','' \<notin> set s \<Longrightarrow> split_comma s = [s]"
  by (induction s) auto

lemma split_comma_pair:
  "CHR '','' \<notin> set a \<Longrightarrow> CHR '','' \<notin> set b \<Longrightarrow> split_comma (a @ CHR '','' # b) = [a, b]"
  by (induction a) (auto simp: split_comma_none)

lemma takeWhile_digits: "list_all is_digit (takeWhile is_digit s)"
  by (auto simp: list_all_iff dest: set_takeWhileD)

lemma match_float_token:
  assumes "match_float s = Some (t, r)"
  shows "float_token t"
proof -
  define sg :: string where "sg = (case s of c # r \<Rightarrow> if c = CHR ''-'' then ''-'' else [] | [] \<Rightarrow> [])"
  define r0 where "r0 = (case s of c # r \<Rightarrow> if c = CHR ''-'' then r else s | [] \<Rightarrow> s)"
  have sp: "(case s of c # r \<Rightarrow> if c = CHR ''-'' then (''-'', r) else ([], s) | [] \<Rightarrow> ([], s)) = (sg, r0)"
    by (simp add: sg_def r0_def split: list.splits)
  have sg: "sg = [] \<or> sg = ''-''" by (simp add: sg_def split: list.splits)
  from assms obtain r2 where
    ip: "takeWhile is_digit r0 \<noteq> []" and fp: "takeWhile is_digit r2 \<noteq> []"
    and t: "t = sg @ takeWhile is_digit r0 @ ''.'' @ takeWhile is_digit r2"
    unfolding match_float_def sp Let_def
    by (auto split: if_splits list.splits)
  from ip fp t sg takeWhile_digits show ?thesis
    unfolding float_token_def by blast
qed

lemma digits_no_comma: "list_all is_digit ds \<Longrightarrow> CHR '','' \<notin> set ds"
proof (induction ds)
  case Nil
  show ?case by simp
next
  case (Cons d ds)
  then have "is_digit d" and "CHR '','' \<notin> set ds" by simp_all
  with digit_neq(7)[of d] show ?case by auto
qed

lemma float_token_no_comma:
  assumes "float_token t"
  shows "CHR '','' \<notin> set t"
proof -
  from assms obtain sg ip fp where t: "t = sg @ ip @ ''.'' @ fp" and sg: "sg = [] \<or> sg = ''-''"
    and d: "list_all is_digit ip" "list_all is_digit fp"
    unfolding float_token_def by blast
  from sg have "CHR '','' \<notin> set sg" by auto
  with digits_no_comma[OF d(1)] digits_no_comma[OF d(2)] show ?thesis
    unfolding t by simp
qed

lemma py_float_minus_number:
  assumes "is_number g ip fp"
  shows "py_float (CHR ''-'' # g) = Some (mk_finite True (nat_of_digits (ip @ fp)) (- int (length fp)))"
proof -
  from assms have ip: "ip \<noteq> []" "list_all is_digit ip" and fp: "list_all is_digit fp"
    by (auto simp: is_number_def)
  from assms have g: "g = ip @ (if fp = [] then [] else ''.'' @ fp)"
    by (auto simp: is_number_def)
  have hd: "is_digit (hd g)" using ip g by (cases ip) auto
  have lst: "is_digit (last g)" using ip fp g
    by (cases "fp = []") (auto simp: list_all_iff)
  have ne: "g \<noteq> []" using ip g by auto
  have strip: "float_strip (CHR ''-'' # g) = CHR ''-'' # g"
    using ne lst by (intro float_strip_id) (auto simp: float_space_def dest: digit_not_float_space)
  have nou: "\<forall>c\<in>set g. c \<noteq> CHR ''_''"
    using ip fp g by (auto simp: list_all_iff dest: digit_neq(1))
  obtain c r where cr: "g = c # r" using ne by (cases g) auto
  with hd have c: "is_digit c" by simp
  have low: "map lower_char g \<noteq> ''inf''" "map lower_char g \<noteq> ''infinity''" "map lower_char g \<noteq> ''nan''"
    using c cr digit_lower[OF c] digit_neq(5,6)[OF c] by auto
  have pd: "parse_decimal True g = Some (mk_finite True (nat_of_digits (ip @ fp)) (- int (length fp)))"
  proof (cases "fp = []")
    case True
    with g ip show ?thesis
      by (simp add: parse_decimal_def takeWhile_all dropWhile_all parse_exponent_def)
  next
    case False
    with g ip fp show ?thesis
      by (simp add: parse_decimal_def takeWhile_digits_point dropWhile_digits_point
          takeWhile_all dropWhile_all parse_exponent_def)
  qed
  have uo: "underscores_ok (CHR 0x00) (CHR ''-'' # g)"
    using underscores_ok_none[OF nou, of "CHR ''-''"] by simp
  have fl: "filter (\<lambda>c. c \<noteq> CHR ''_'') (CHR ''-'' # g) = CHR ''-'' # g"
    using filter_no_underscore[OF nou] by simp
  show ?thesis
    unfolding py_float_def Let_def strip fl
    using uo low pd by simp
qed

lemma py_float_token: "float_token t \<Longrightarrow> py_float t \<noteq> None"
proof -
  assume "float_token t"
  then obtain sg ip fp where t: "t = sg @ ip @ ''.'' @ fp" and sg: "sg = [] \<or> sg = ''-''"
    and d: "ip \<noteq> []" "list_all is_digit ip" "fp \<noteq> []" "list_all is_digit fp"
    unfolding float_token_def by blast
  from d have n: "is_number (ip @ ''.'' @ fp) ip fp" by (simp add: is_number_def)
  from sg show ?thesis
  proof
    assume "sg = []"
    with t py_float_number[OF n] show ?thesis by simp
  next
    assume "sg = ''-''"
    with t py_float_minus_number[OF n] show ?thesis by simp
  qed
qed

lemma float_tokens_wellformed:
  assumes "float_token a" "float_token b"
  shows "coordinates_wellformed (fmt_pair (a, b))"
proof -
  have "split_comma (a @ CHR '','' # b) = [a, b]"
    by (rule split_comma_pair) (simp_all add: float_token_no_comma assms)
  with py_float_token[OF assms(1)] py_float_token[OF assms(2)] show ?thesis
    by (simp add: coordinates_wellformed_def fmt_pair_def)
qed

lemma match_pair_tokens:
  "match_pair pre sep s = Some (a, b) \<Longrightarrow> float_token a \<and> float_token b"
  by (auto simp: match_pair_def split: option.splits dest: match_float_token)

lemma search_pair_tokens:
  "search_pair pre sep s = Some (a, b) \<Longrightarrow> float_token a \<and> float_token b"
  by (induction s) (auto split: option.splits dest: match_pair_tokens)

lemma search_wellformed:
  "search_at s = Some m \<Longrightarrow> coordinates_wellformed (fmt_pair m)"
  "search_3d4d s = Some m \<Longrightarrow> coordinates_wellformed (fmt_pair m)"
  "search_latitude_longitude s = Some m \<Longrightarrow> coordinates_wellformed (fmt_pair m)"
  unfolding search_at_def search_3d4d_def search_latitude_longitude_def
  by (cases m; auto dest!: search_pair_tokens intro: float_tokens_wellformed)+

lemma share_link_coordinates_wellformed:
  "share_link_coordinates p ls = Some c \<Longrightarrow> coordinates_wellformed c"
  by (induction ls) (auto simp: search_wellformed split: option.splits if_splits)

lemma script_coordinates_wellformed:
  "script_coordinates ss = Some c \<Longrightarrow> coordinates_wellformed c"
  by (induction ss rule: script_coordinates.induct) (auto simp: search_wellformed split: option.splits)

text \<open>
  A result of \<^verbatim>\<open>_extract_coordinates\<close> that is neither the sentinel nor
  well-formed can only come from the meta tags: the URL, share-link and script branches
  return two texts matched by \<^verbatim>\<open>-?\d+\.\d+\<close>.
\<close>

lemma extract_coordinates_branches:
  assumes "extract_coordinates p = Inr c"
  shows "c = ''No coordinates'' \<or> coordinates_wellformed c \<or>
         (\<exists>ms. meta_tags p = Some ms \<and> meta_coordinates (og_longitude p) ms = Some c)"
  using assms
  by (auto simp: extract_coordinates_def search_wellformed split: sum.splits option.splits
      dest: share_link_coordinates_wellformed script_coordinates_wellformed)

end
